theory Spec2Isabelle
  imports Main "HOL-Library.Word"
begin

unbundle bit_operations_syntax

section \<open>Machine types\<close>

type_synonym u8 = "8 word"
type_synonym u32 = "32 word"
type_synonym u64 = "64 word"

text \<open>
  \<^verbatim>\<open>M64\<close> and \<^verbatim>\<open>M32\<close> are the unions the emulator keeps an operand in; only their
  unsigned integer view matters here.
\<close>

type_synonym M64 = u64
type_synonym M32 = u32

section \<open>The bit-manipulation dispatcher (bmi.c)\<close>

subsection \<open>Helpers declared in bmi.h\<close>

text \<open>
  \<^verbatim>\<open>bmi_instruction\<close> never touches a field of \<^verbatim>\<open>struct pt_regs\<close> itself: every access
  goes through a helper declared in \<^verbatim>\<open>bmi.h\<close>, which is not among the source files. The
  register snapshot is therefore a type parameter \<open>'r\<close>, and the helpers are the fields
  of an environment the dispatcher is given. A helper that writes through an output
  pointer returns the value written; a helper that is handed \<^verbatim>\<open>regs\<close> and may update the
  flags returns the snapshot as well. \<^verbatim>\<open>get_x64regs\<close> writes its three operands through
  untyped pointers; its two fields are its behaviour for \<^verbatim>\<open>M64\<close> and for \<^verbatim>\<open>M32\<close> pointees.
  A \<^verbatim>\<open>uint8_t *\<close> argument is the list of bytes readable from that pointer onwards.
  \<^verbatim>\<open>bmi_instruction\<close> computes \<^verbatim>\<open>num_src\<close> and receives \<^verbatim>\<open>rmaddrs\<close> from \<^verbatim>\<open>get_x64regs\<close> but reads
  neither afterwards, so the model carries neither.
\<close>

record 'r bmi_env =
  is_saved_state64 :: "'r \<Rightarrow> bool"
  get_x64regs_m64 :: "u8 list \<Rightarrow> u8 \<Rightarrow> u8 \<Rightarrow> u8 \<Rightarrow> u8 \<Rightarrow> 'r \<Rightarrow> u8 \<Rightarrow> M64 \<times> M64 \<times> M64"
  get_x64regs_m32 :: "u8 list \<Rightarrow> u8 \<Rightarrow> u8 \<Rightarrow> u8 \<Rightarrow> u8 \<Rightarrow> 'r \<Rightarrow> u8 \<Rightarrow> M32 \<times> M32 \<times> M32"
  get_consumed :: "u8 list \<Rightarrow> int"
  load_m64 :: "u8 \<Rightarrow> M64 \<Rightarrow> 'r \<Rightarrow> 'r"
  load_m32 :: "u8 \<Rightarrow> M32 \<Rightarrow> 'r \<Rightarrow> 'r"
  rorx64 :: "M64 \<Rightarrow> u8 \<Rightarrow> u8 \<Rightarrow> M64"
  andn64 :: "M64 \<Rightarrow> M64 \<Rightarrow> u8 \<Rightarrow> 'r \<Rightarrow> M64 \<times> 'r"
  blsr64 :: "M64 \<Rightarrow> u8 \<Rightarrow> 'r \<Rightarrow> M64 \<times> 'r"
  blsmsk64 :: "M64 \<Rightarrow> u8 \<Rightarrow> 'r \<Rightarrow> M64 \<times> 'r"
  blsi64 :: "M64 \<Rightarrow> u8 \<Rightarrow> 'r \<Rightarrow> M64 \<times> 'r"
  bzhi64 :: "M64 \<Rightarrow> M64 \<Rightarrow> u8 \<Rightarrow> 'r \<Rightarrow> M64 \<times> 'r"
  pext64 :: "M64 \<Rightarrow> M64 \<Rightarrow> u8 \<Rightarrow> M64"
  pdep64 :: "M64 \<Rightarrow> M64 \<Rightarrow> u8 \<Rightarrow> M64"
  mulx64 :: "M64 \<Rightarrow> 'r \<Rightarrow> u8 \<Rightarrow> M64 \<times> M64 \<times> 'r"
  bextr64 :: "M64 \<Rightarrow> M64 \<Rightarrow> M64 \<Rightarrow> u8 \<Rightarrow> 'r \<Rightarrow> M64 \<times> 'r"
  shlx64 :: "M64 \<Rightarrow> M64 \<Rightarrow> u8 \<Rightarrow> M64"
  sarx64 :: "M64 \<Rightarrow> M64 \<Rightarrow> u8 \<Rightarrow> M64"
  shrx64 :: "M64 \<Rightarrow> M64 \<Rightarrow> u8 \<Rightarrow> M64"
  rorx32 :: "M32 \<Rightarrow> u8 \<Rightarrow> M32"
  andn32 :: "M32 \<Rightarrow> M32 \<Rightarrow> 'r \<Rightarrow> M32 \<times> 'r"
  blsr32 :: "M32 \<Rightarrow> 'r \<Rightarrow> M32 \<times> 'r"
  blsmsk32 :: "M32 \<Rightarrow> 'r \<Rightarrow> M32 \<times> 'r"
  blsi32 :: "M32 \<Rightarrow> 'r \<Rightarrow> M32 \<times> 'r"
  bzhi32 :: "M32 \<Rightarrow> M32 \<Rightarrow> 'r \<Rightarrow> M32 \<times> 'r"
  pext32 :: "M32 \<Rightarrow> M32 \<Rightarrow> M32"
  pdep32 :: "M32 \<Rightarrow> M32 \<Rightarrow> M32"
  mulx32 :: "M32 \<Rightarrow> 'r \<Rightarrow> M32 \<times> M32 \<times> 'r"
  bextr32 :: "M32 \<Rightarrow> M32 \<Rightarrow> M32 \<Rightarrow> 'r \<Rightarrow> M32 \<times> 'r"
  shlx32 :: "M32 \<Rightarrow> M32 \<Rightarrow> M32"
  sarx32 :: "M32 \<Rightarrow> M32 \<Rightarrow> M32"
  shrx32 :: "M32 \<Rightarrow> M32 \<Rightarrow> M32"

subsection \<open>Reads through the two byte pointers\<close>

text \<open>
  \<^verbatim>\<open>*modrm\<close> and \<^verbatim>\<open>bytep[consumed]\<close> are plain C reads. A read outside the bytes the pointer
  gives access to is a fault of the model, one constructor per pointer.
\<close>

datatype bmi_fault = Fault_modrm | Fault_bytep

definition read_modrm :: "u8 list \<Rightarrow> u8 option" where
  "read_modrm modrm = (case modrm of [] \<Rightarrow> None | b # _ \<Rightarrow> Some b)"

definition read_bytep :: "u8 list \<Rightarrow> int \<Rightarrow> u8 option" where
  "read_bytep bytep consumed =
     (if 0 \<le> consumed \<and> nat consumed < length bytep then Some (bytep ! nat consumed) else None)"

subsection \<open>The two switch statements\<close>

text \<open>
  Each switch yields \<open>None\<close> where the source executes \<^verbatim>\<open>default: return 0\<close>, and otherwise
  the value of \<^verbatim>\<open>ins_size\<close> and the register snapshot at the \<^verbatim>\<open>break\<close>.
\<close>

definition bmi_switch64 ::
  "'r bmi_env \<Rightarrow> 'r \<Rightarrow> u8 \<Rightarrow> u8 \<Rightarrow> u8 \<Rightarrow> u8 \<Rightarrow> u8 \<Rightarrow> u8 \<Rightarrow> u8 \<Rightarrow> u8 \<Rightarrow> u8 \<Rightarrow>
     M64 \<Rightarrow> M64 \<Rightarrow> M64 \<Rightarrow> (u8 \<times> 'r) option" where
  "bmi_switch64 E regs vexreg opcode operand_size leading_opcode simd_prefix imm ins_size
      modreg num_dst m64src m64vsrc m64dst =
    (if opcode = 0xF0 then
       (if simd_prefix = 3 then
          (if leading_opcode = 3 then
             Some (ins_size + 1, load_m64 E num_dst (rorx64 E m64src imm operand_size) regs)
           else Some (ins_size, regs))
        else Some (ins_size, regs))
     else if opcode = 0xF2 then
       (if simd_prefix = 0 then
          (if leading_opcode = 2 then
             (let (m64res, regs1) = andn64 E m64src m64vsrc operand_size regs
              in Some (ins_size, load_m64 E num_dst m64res regs1))
           else Some (ins_size, regs))
        else Some (ins_size, regs))
     else if opcode = 0xF3 then
       (if simd_prefix = 0 then
          (if leading_opcode = 2 then
             (if modreg = 1 then
                (let (m64res, regs1) = blsr64 E m64src operand_size regs
                 in Some (ins_size, load_m64 E vexreg m64res regs1))
              else if modreg = 2 then
                (let (m64res, regs1) = blsmsk64 E m64src operand_size regs
                 in Some (ins_size, load_m64 E vexreg m64res regs1))
              else if modreg = 3 then
                (let (m64res, regs1) = blsi64 E m64src operand_size regs
                 in Some (ins_size, load_m64 E vexreg m64res regs1))
              else Some (ins_size, regs))
           else Some (ins_size, regs))
        else Some (ins_size, regs))
     else if opcode = 0xF5 then
       (if leading_opcode = 2 then
          (if simd_prefix = 0 then
             (let (m64res, regs1) = bzhi64 E m64src m64vsrc operand_size regs
              in Some (ins_size, load_m64 E num_dst m64res regs1))
           else if simd_prefix = 2 then
             Some (ins_size, load_m64 E num_dst (pext64 E m64src m64vsrc operand_size) regs)
           else if simd_prefix = 3 then
             Some (ins_size, load_m64 E num_dst (pdep64 E m64src m64vsrc operand_size) regs)
           else Some (ins_size, regs))
        else Some (ins_size, regs))
     else if opcode = 0xF6 then
       (if simd_prefix = 3 then
          (if leading_opcode = 2 then
             (let (m64res, m64dres, regs1) = mulx64 E m64src regs operand_size
              in Some (ins_size, load_m64 E vexreg m64dres (load_m64 E num_dst m64res regs1)))
           else Some (ins_size, regs))
        else Some (ins_size, regs))
     else if opcode = 0xF7 then
       (if leading_opcode = 2 then
          (if simd_prefix = 0 then
             (let (m64res, regs1) = bextr64 E m64src m64vsrc m64dst operand_size regs
              in Some (ins_size, load_m64 E num_dst m64res regs1))
           else if simd_prefix = 1 then
             Some (ins_size, load_m64 E num_dst (shlx64 E m64src m64vsrc operand_size) regs)
           else if simd_prefix = 2 then
             Some (ins_size, load_m64 E num_dst (sarx64 E m64src m64vsrc operand_size) regs)
           else if simd_prefix = 3 then
             Some (ins_size, load_m64 E num_dst (shrx64 E m64src m64vsrc operand_size) regs)
           else Some (ins_size, regs))
        else Some (ins_size, regs))
     else None)"

definition bmi_switch32 ::
  "'r bmi_env \<Rightarrow> 'r \<Rightarrow> u8 \<Rightarrow> u8 \<Rightarrow> u8 \<Rightarrow> u8 \<Rightarrow> u8 \<Rightarrow> u8 \<Rightarrow> u8 \<Rightarrow> u8 \<Rightarrow>
     M32 \<Rightarrow> M32 \<Rightarrow> M32 \<Rightarrow> (u8 \<times> 'r) option" where
  "bmi_switch32 E regs vexreg opcode leading_opcode simd_prefix imm ins_size
      modreg num_dst m32src m32vsrc m32dst =
    (if opcode = 0xF0 then
       (if simd_prefix = 3 then
          (if leading_opcode = 3 then
             Some (ins_size + 1, load_m32 E num_dst (rorx32 E m32src imm) regs)
           else Some (ins_size, regs))
        else Some (ins_size, regs))
     else if opcode = 0xF2 then
       (if simd_prefix = 0 then
          (if leading_opcode = 2 then
             (let (m32res, regs1) = andn32 E m32src m32vsrc regs
              in Some (ins_size, load_m32 E num_dst m32res regs1))
           else Some (ins_size, regs))
        else Some (ins_size, regs))
     else if opcode = 0xF3 then
       (if simd_prefix = 0 then
          (if leading_opcode = 2 then
             (if modreg = 1 then
                (let (m32res, regs1) = blsr32 E m32src regs
                 in Some (ins_size, load_m32 E vexreg m32res regs1))
              else if modreg = 2 then
                (let (m32res, regs1) = blsmsk32 E m32src regs
                 in Some (ins_size, load_m32 E vexreg m32res regs1))
              else if modreg = 3 then
                (let (m32res, regs1) = blsi32 E m32src regs
                 in Some (ins_size, load_m32 E vexreg m32res regs1))
              else Some (ins_size, regs))
           else Some (ins_size, regs))
        else Some (ins_size, regs))
     else if opcode = 0xF5 then
       (if leading_opcode = 2 then
          (if simd_prefix = 0 then
             (let (m32res, regs1) = bzhi32 E m32src m32vsrc regs
              in Some (ins_size, load_m32 E num_dst m32res regs1))
           else if simd_prefix = 2 then
             Some (ins_size, load_m32 E num_dst (pext32 E m32src m32vsrc) regs)
           else if simd_prefix = 3 then
             Some (ins_size, load_m32 E num_dst (pdep32 E m32src m32vsrc) regs)
           else Some (ins_size, regs))
        else Some (ins_size, regs))
     else if opcode = 0xF6 then
       (if simd_prefix = 3 then
          (if leading_opcode = 2 then
             (let (m32res, m32dres, regs1) = mulx32 E m32src regs
              in Some (ins_size, load_m32 E vexreg m32dres (load_m32 E num_dst m32res regs1)))
           else Some (ins_size, regs))
        else Some (ins_size, regs))
     else if opcode = 0xF7 then
       (if leading_opcode = 2 then
          (if simd_prefix = 0 then
             (let (m32res, regs1) = bextr32 E m32src m32vsrc m32dst regs
              in Some (ins_size, load_m32 E num_dst m32res regs1))
           else if simd_prefix = 1 then
             Some (ins_size, load_m32 E num_dst (shlx32 E m32src m32vsrc) regs)
           else if simd_prefix = 2 then
             Some (ins_size, load_m32 E num_dst (sarx32 E m32src m32vsrc) regs)
           else if simd_prefix = 3 then
             Some (ins_size, load_m32 E num_dst (shrx32 E m32src m32vsrc) regs)
           else Some (ins_size, regs))
        else Some (ins_size, regs))
     else None)"

subsection \<open>bmi\_instruction\<close>

text \<open>
  The result is a fault, or the \<^verbatim>\<open>int\<close> returned together with the register snapshot
  the call leaves behind. \<^verbatim>\<open>ins_size\<close>, \<^verbatim>\<open>num_dst\<close> and \<^verbatim>\<open>num_src\<close> are \<^verbatim>\<open>uint8_t\<close>:
  \<^verbatim>\<open>ins_size += consumed\<close> stores the sum truncated to eight bits, and the value
  returned is that byte widened to \<^verbatim>\<open>int\<close>.
\<close>

definition bmi_instruction ::
  "'r bmi_env \<Rightarrow> 'r \<Rightarrow> u8 \<Rightarrow> u8 \<Rightarrow> u8 list \<Rightarrow> u8 \<Rightarrow> u8 \<Rightarrow> u8 \<Rightarrow> u8 \<Rightarrow> u8 \<Rightarrow> u8 \<Rightarrow>
     u8 list \<Rightarrow> u8 \<Rightarrow> u8 \<Rightarrow> bmi_fault + (int \<times> 'r)" where
  "bmi_instruction E regs vexreg opcode modrm high_reg high_index high_base operand_size
      leading_opcode simd_prefix bytep ins_size modbyte =
    (case read_modrm modrm of
       None \<Rightarrow> Inl Fault_modrm
     | Some mb \<Rightarrow>
        (let modreg = drop_bit 3 mb AND 0x7;
             num_dst0 = drop_bit 3 mb AND 0x7;
             num_dst = (if high_reg \<noteq> 0 then num_dst0 + 8 else num_dst0);
             consumed = get_consumed E modrm
         in if is_saved_state64 E regs then
              (let (m64src, m64vsrc, m64dst) =
                     get_x64regs_m64 E modrm high_reg high_index high_base vexreg regs modbyte
               in case read_bytep bytep consumed of
                    None \<Rightarrow> Inl Fault_bytep
                  | Some imm \<Rightarrow>
                     (case bmi_switch64 E regs vexreg opcode operand_size leading_opcode
                             simd_prefix imm (ins_size + word_of_int consumed) modreg num_dst
                             m64src m64vsrc m64dst of
                        None \<Rightarrow> Inr (0, regs)
                      | Some (sz, regs') \<Rightarrow> Inr (uint sz, regs')))
            else
              (let (m32src, m32vsrc, m32dst) =
                     get_x64regs_m32 E modrm high_reg high_index high_base vexreg regs modbyte
               in case read_bytep bytep consumed of
                    None \<Rightarrow> Inl Fault_bytep
                  | Some imm \<Rightarrow>
                     (case bmi_switch32 E regs vexreg opcode leading_opcode
                             simd_prefix imm (ins_size + word_of_int consumed) modreg num_dst
                             m32src m32vsrc m32dst of
                        None \<Rightarrow> Inr (0, regs)
                      | Some (sz, regs') \<Rightarrow> Inr (uint sz, regs')))))"

subsection \<open>The combinations that execute an operation\<close>

text \<open>
  The conditions under which one of the two switches calls an emulation helper, read
  off the nested \<^verbatim>\<open>if\<close>s: \<^verbatim>\<open>rorx\<close>; \<^verbatim>\<open>andn\<close>; \<^verbatim>\<open>blsr\<close>, \<^verbatim>\<open>blsmsk\<close>, \<^verbatim>\<open>blsi\<close>; \<^verbatim>\<open>bzhi\<close>, \<^verbatim>\<open>pext\<close>,
  \<^verbatim>\<open>pdep\<close>; \<^verbatim>\<open>mulx\<close>; \<^verbatim>\<open>bextr\<close>, \<^verbatim>\<open>shlx\<close>, \<^verbatim>\<open>sarx\<close>, \<^verbatim>\<open>shrx\<close>.
\<close>

definition bmi_recognized :: "u8 \<Rightarrow> u8 \<Rightarrow> u8 \<Rightarrow> u8 \<Rightarrow> bool" where
  "bmi_recognized opcode simd_prefix leading_opcode modreg =
    ((opcode = 0xF0 \<and> simd_prefix = 3 \<and> leading_opcode = 3) \<or>
     (opcode = 0xF2 \<and> simd_prefix = 0 \<and> leading_opcode = 2) \<or>
     (opcode = 0xF3 \<and> simd_prefix = 0 \<and> leading_opcode = 2 \<and>
        (modreg = 1 \<or> modreg = 2 \<or> modreg = 3)) \<or>
     (opcode = 0xF5 \<and> leading_opcode = 2 \<and>
        (simd_prefix = 0 \<or> simd_prefix = 2 \<or> simd_prefix = 3)) \<or>
     (opcode = 0xF6 \<and> simd_prefix = 3 \<and> leading_opcode = 2) \<or>
     (opcode = 0xF7 \<and> leading_opcode = 2 \<and>
        (simd_prefix = 0 \<or> simd_prefix = 1 \<or> simd_prefix = 2 \<or> simd_prefix = 3)))"

text \<open>The \<^verbatim>\<open>int\<close> a call returns, when it returns.\<close>

definition returned :: "bmi_fault + (int \<times> 'r) \<Rightarrow> int option" where
  "returned res = (case res of Inl _ \<Rightarrow> None | Inr (n, _) \<Rightarrow> Some n)"

text \<open>The register snapshot a call leaves behind, when it returns.\<close>

definition regs_after :: "bmi_fault + (int \<times> 'r) \<Rightarrow> 'r option" where
  "regs_after res = (case res of Inl _ \<Rightarrow> None | Inr (_, r) \<Rightarrow> Some r)"

subsection \<open>The instruction pointer after the call\<close>

text \<open>
  Modelled from the spec: the caller of \<^verbatim>\<open>bmi_instruction\<close> (\<^verbatim>\<open>opemu_utrap\<close>, declared in
  \<^verbatim>\<open>optrap.h\<close>) is not among the source files. The spec has Writeback advance the
  instruction pointer by exactly the consumed-byte count: the resumed instruction
  pointer equals the original fault address plus that count. \<open>resumed_ip\<close> is that
  pointer for the count a call returned.
\<close>

definition writeback_ip :: "u64 \<Rightarrow> int \<Rightarrow> u64" where
  "writeback_ip fault_ip count = fault_ip + word_of_int count"

definition resumed_ip :: "u64 \<Rightarrow> bmi_fault + (int \<times> 'r) \<Rightarrow> u64 option" where
  "resumed_ip fault_ip res = map_option (writeback_ip fault_ip) (returned res)"

section \<open>Parallel bit extract and deposit\<close>

text \<open>
  Modelled from the spec: \<^verbatim>\<open>pext64\<close>, \<^verbatim>\<open>pdep64\<close> and their 32-bit versions are declared in
  \<^verbatim>\<open>bmi.h\<close>, which is not among the source files. The spec's table gives their
  semantics: \<^emph>\<open>pext\<close> gathers the bits of its first operand selected by the mask into the
  low bits, \<^emph>\<open>pdep\<close> scatters the low bits of its first operand into the positions
  selected by the mask. Both walk the mask from bit 0 upwards; bit lists are least
  significant bit first.
\<close>

definition bits_of :: "'a::len word \<Rightarrow> bool list" where
  "bits_of w = map (bit w) [0..<LENGTH('a)]"

definition word_of_bits :: "bool list \<Rightarrow> 'a::len word" where
  "word_of_bits bs = horner_sum of_bool 2 bs"

fun pdep_bits :: "bool list \<Rightarrow> bool list \<Rightarrow> bool list" where
  "pdep_bits s [] = []"
| "pdep_bits s (False # m) = False # pdep_bits s m"
| "pdep_bits [] (True # m) = False # pdep_bits [] m"
| "pdep_bits (b # s) (True # m) = b # pdep_bits s m"

fun pext_bits :: "bool list \<Rightarrow> bool list \<Rightarrow> bool list" where
  "pext_bits s [] = []"
| "pext_bits [] (c # m) = []"
| "pext_bits (b # s) (False # m) = pext_bits s m"
| "pext_bits (b # s) (True # m) = b # pext_bits s m"

definition pdep :: "'a::len word \<Rightarrow> 'a word \<Rightarrow> 'a word" where
  "pdep v m = word_of_bits (pdep_bits (bits_of v) (bits_of m))"

definition pext :: "'a::len word \<Rightarrow> 'a word \<Rightarrow> 'a word" where
  "pext v m = word_of_bits (pext_bits (bits_of v) (bits_of m))"

definition popcount :: "'a::len word \<Rightarrow> nat" where
  "popcount m = length (filter id (bits_of m))"

text \<open>The mask that keeps as many low bits as \<open>m\<close> has set bits.\<close>

definition popcount_mask :: "'a::len word \<Rightarrow> 'a word" where
  "popcount_mask m = mask (popcount m)"

section \<open>A register file to run the dispatcher on\<close>

text \<open>
  Modelled from the spec: the helpers of \<^verbatim>\<open>bmi.h\<close> and \<^verbatim>\<open>struct pt_regs\<close> are not among the
  source files. To run \<open>bmi_instruction\<close> on concrete inputs, \<open>sample_env\<close> instantiates
  the environment over a register file of sixteen general-purpose registers and a mode
  bit. Results follow the semantics column of the spec's table, at the operand width the
  helper is given; the rows' flag updates are left out of this sample, and it resolves
  register-direct operands only (any other ModRM form reads as 0). The decoder's count
  is the ModRM byte with the SIB byte and the displacement it announces.
\<close>

record sample_regs =
  gpr :: "u64 list"
  long_mode :: bool

definition sample_get_consumed :: "u8 list \<Rightarrow> int" where
  "sample_get_consumed modrm =
     (case modrm of
        [] \<Rightarrow> 0
      | mb # rest \<Rightarrow>
         (let md = drop_bit 6 mb; rm = mb AND 7;
              sib_base = (case rest of [] \<Rightarrow> 0 | sib # _ \<Rightarrow> sib AND 7)
          in if md = 3 then 1
             else if md = 0 then
               (if rm = 5 then 5 else if rm = 4 then (if sib_base = 5 then 6 else 2) else 1)
             else if md = 1 then (if rm = 4 then 3 else 2)
             else (if rm = 4 then 6 else 5)))"

definition sample_reg :: "sample_regs \<Rightarrow> u8 \<Rightarrow> u64" where
  "sample_reg regs n = (if unat n < length (gpr regs) then gpr regs ! unat n else 0)"

definition sample_get_x64regs ::
  "u8 list \<Rightarrow> u8 \<Rightarrow> u8 \<Rightarrow> u8 \<Rightarrow> u8 \<Rightarrow> sample_regs \<Rightarrow> u8 \<Rightarrow> u64 \<times> u64 \<times> u64" where
  "sample_get_x64regs modrm high_reg high_index high_base vexreg regs modbyte =
     (case modrm of
        [] \<Rightarrow> (0, 0, 0)
      | mb # _ \<Rightarrow>
         (let rg = (drop_bit 3 mb AND 7) + (if high_reg \<noteq> 0 then 8 else 0);
              rm = (mb AND 7) + (if high_base \<noteq> 0 then 8 else 0)
          in ((if drop_bit 6 mb = 3 then sample_reg regs rm else 0),
              sample_reg regs vexreg, sample_reg regs rg)))"

definition sample_load :: "u8 \<Rightarrow> u64 \<Rightarrow> sample_regs \<Rightarrow> sample_regs" where
  "sample_load n v regs = regs\<lparr>gpr := (gpr regs)[unat n := v]\<rparr>"

definition spec_rorx :: "'a::len word \<Rightarrow> u8 \<Rightarrow> 'a word" where
  "spec_rorx src imm = word_rotr (unat imm mod LENGTH('a)) src"

definition spec_andn :: "'a::len word \<Rightarrow> 'a word \<Rightarrow> 'a word" where
  "spec_andn src1 src2 = NOT src1 AND src2"

definition spec_blsr :: "'a::len word \<Rightarrow> 'a word" where
  "spec_blsr src = src AND (src - 1)"

definition spec_blsmsk :: "'a::len word \<Rightarrow> 'a word" where
  "spec_blsmsk src = src XOR (src - 1)"

definition spec_blsi :: "'a::len word \<Rightarrow> 'a word" where
  "spec_blsi src = src AND (- src)"

definition spec_bzhi :: "'a::len word \<Rightarrow> 'a word \<Rightarrow> 'a word" where
  "spec_bzhi src1 src2 = take_bit (unat (src2 AND 0xFF)) src1"

definition spec_bextr :: "'a::len word \<Rightarrow> 'a word \<Rightarrow> 'a word" where
  "spec_bextr src1 src2 =
     take_bit (unat (drop_bit 8 src2 AND 0xFF)) (drop_bit (unat (src2 AND 0xFF)) src1)"

definition spec_mulx :: "'a::len word \<Rightarrow> 'a word \<Rightarrow> 'a word \<times> 'a word" where
  "spec_mulx a b =
     (word_of_nat ((unat a * unat b) div 2 ^ LENGTH('a)), word_of_nat (unat a * unat b))"

definition spec_shlx :: "'a::len word \<Rightarrow> 'a word \<Rightarrow> 'a word" where
  "spec_shlx src1 src2 = push_bit (unat src2 mod LENGTH('a)) src1"

definition spec_shrx :: "'a::len word \<Rightarrow> 'a word \<Rightarrow> 'a word" where
  "spec_shrx src1 src2 = drop_bit (unat src2 mod LENGTH('a)) src1"

definition spec_sarx :: "'a::len word \<Rightarrow> 'a word \<Rightarrow> 'a word" where
  "spec_sarx src1 src2 = signed_drop_bit (unat src2 mod LENGTH('a)) src1"

text \<open>A 64-bit helper works at the width its \<^verbatim>\<open>operand_size\<close> argument names.\<close>

definition at_width :: "u8 \<Rightarrow> (u64 \<Rightarrow> u64) \<Rightarrow> (u32 \<Rightarrow> u32) \<Rightarrow> u64 \<Rightarrow> u64" where
  "at_width operand_size f64 f32 x = (if operand_size = 64 then f64 x else ucast (f32 (ucast x)))"

definition at_width2 ::
  "u8 \<Rightarrow> (u64 \<Rightarrow> u64 \<Rightarrow> u64) \<Rightarrow> (u32 \<Rightarrow> u32 \<Rightarrow> u32) \<Rightarrow> u64 \<Rightarrow> u64 \<Rightarrow> u64" where
  "at_width2 operand_size f64 f32 x y =
     (if operand_size = 64 then f64 x y else ucast (f32 (ucast x) (ucast y)))"

definition sample_env :: "sample_regs bmi_env" where
  "sample_env = \<lparr>
     is_saved_state64 = long_mode,
     get_x64regs_m64 = sample_get_x64regs,
     get_x64regs_m32 = (\<lambda>modrm hr hi hb vexreg regs modbyte.
        (case sample_get_x64regs modrm hr hi hb vexreg regs modbyte of
           (a, b, c) \<Rightarrow> (ucast a, ucast b, ucast c))),
     get_consumed = sample_get_consumed,
     load_m64 = sample_load,
     load_m32 = (\<lambda>n v. sample_load n (ucast v)),
     rorx64 = (\<lambda>src imm sz. at_width sz (\<lambda>x. spec_rorx x imm) (\<lambda>x. spec_rorx x imm) src),
     andn64 = (\<lambda>src vsrc sz regs. (at_width2 sz spec_andn spec_andn vsrc src, regs)),
     blsr64 = (\<lambda>src sz regs. (at_width sz spec_blsr spec_blsr src, regs)),
     blsmsk64 = (\<lambda>src sz regs. (at_width sz spec_blsmsk spec_blsmsk src, regs)),
     blsi64 = (\<lambda>src sz regs. (at_width sz spec_blsi spec_blsi src, regs)),
     bzhi64 = (\<lambda>src vsrc sz regs. (at_width2 sz spec_bzhi spec_bzhi src vsrc, regs)),
     pext64 = (\<lambda>src vsrc sz. at_width2 sz pext pext vsrc src),
     pdep64 = (\<lambda>src vsrc sz. at_width2 sz pdep pdep vsrc src),
     mulx64 = (\<lambda>src regs sz.
        (if sz = 64 then
           (case spec_mulx src (sample_reg regs 2) of (h, l) \<Rightarrow> (h, l, regs))
         else
           (case spec_mulx (ucast src :: u32) (ucast (sample_reg regs 2)) of
              (h, l) \<Rightarrow> (ucast h, ucast l, regs)))),
     bextr64 = (\<lambda>src vsrc dst sz regs. (at_width2 sz spec_bextr spec_bextr src vsrc, regs)),
     shlx64 = (\<lambda>src vsrc sz. at_width2 sz spec_shlx spec_shlx src vsrc),
     sarx64 = (\<lambda>src vsrc sz. at_width2 sz spec_sarx spec_sarx src vsrc),
     shrx64 = (\<lambda>src vsrc sz. at_width2 sz spec_shrx spec_shrx src vsrc),
     rorx32 = spec_rorx,
     andn32 = (\<lambda>src vsrc regs. (spec_andn vsrc src, regs)),
     blsr32 = (\<lambda>src regs. (spec_blsr src, regs)),
     blsmsk32 = (\<lambda>src regs. (spec_blsmsk src, regs)),
     blsi32 = (\<lambda>src regs. (spec_blsi src, regs)),
     bzhi32 = (\<lambda>src vsrc regs. (spec_bzhi src vsrc, regs)),
     pext32 = (\<lambda>src vsrc. pext vsrc src),
     pdep32 = (\<lambda>src vsrc. pdep vsrc src),
     mulx32 = (\<lambda>src regs.
        (case spec_mulx src (ucast (sample_reg regs 2)) of (h, l) \<Rightarrow> (h, l, regs))),
     bextr32 = (\<lambda>src vsrc dst regs. (spec_bextr src vsrc, regs)),
     shlx32 = spec_shlx,
     sarx32 = spec_sarx,
     shrx32 = spec_shrx \<rparr>"

text \<open>Sixteen registers holding 0x10, 0x11, ..., 0x1F, in 64-bit mode.\<close>

definition regs0 :: sample_regs where
  "regs0 = \<lparr> gpr = [0x10, 0x11, 0x12, 0x13, 0x14, 0x15, 0x16, 0x17,
                      0x18, 0x19, 0x1A, 0x1B, 0x1C, 0x1D, 0x1E, 0x1F],
             long_mode = True \<rparr>"

section \<open>The trap hook (trap\_hook.c)\<close>

subsection \<open>Fault dispatch\<close>

text \<open>
  \<^verbatim>\<open>user_mode\<close> is the kernel's macro and \<^verbatim>\<open>opemu_utrap\<close> is declared in \<^verbatim>\<open>optrap.h\<close>; neither
  is among the source files, so both are fields of an environment. \<^verbatim>\<open>opemu_utrap\<close> is
  handed the snapshot by pointer: it returns its \<^verbatim>\<open>int\<close> and the snapshot it leaves.
  \<^verbatim>\<open>orig_do_error_trap\<close> is the kernel's own handler, reached through the pointer the hook
  saved. What a dispatch does to the outside is its list of events, oldest first: each
  call of the emulator and each call of the original handler, with the arguments passed.
\<close>

record 'r trap_env =
  user_mode :: "'r \<Rightarrow> bool"
  opemu_utrap :: "'r \<Rightarrow> int \<times> 'r"

datatype 'r trap_event =
    Emulate 'r
  | Forward 'r u64 string u64 int

fun is_Emulate :: "'r trap_event \<Rightarrow> bool" where
  "is_Emulate (Emulate _) = True"
| "is_Emulate (Forward _ _ _ _ _) = False"

fun is_Forward :: "'r trap_event \<Rightarrow> bool" where
  "is_Forward (Emulate _) = False"
| "is_Forward (Forward _ _ _ _ _) = True"

definition kernel_trap :: "'r \<Rightarrow> u64 \<Rightarrow> int" where
  "kernel_trap regs trapnr = 0"

definition user_trap :: "'r trap_env \<Rightarrow> 'r \<Rightarrow> u64 \<Rightarrow> int \<times> 'r \<times> 'r trap_event list" where
  "user_trap T regs trapnr =
     (if trapnr = 6 then
        (let (r, regs') = opemu_utrap T regs
         in if r \<noteq> 0 then (1, regs', [Emulate regs]) else (0, regs', [Emulate regs]))
      else (0, regs, []))"

text \<open>
  The result of a dispatch: the register snapshot when \<^verbatim>\<open>fh_do_error_trap\<close> is done with
  it, and the events in order.
\<close>

definition fh_do_error_trap ::
  "'r trap_env \<Rightarrow> 'r \<Rightarrow> u64 \<Rightarrow> string \<Rightarrow> u64 \<Rightarrow> int \<Rightarrow> 'r \<times> 'r trap_event list" where
  "fh_do_error_trap T regs error_code str trapnr signr =
     (if user_mode T regs then
        (let (h, regs', evs) = user_trap T regs trapnr
         in if h \<noteq> 0 then (regs', evs)
            else (regs', evs @ [Forward regs' error_code str trapnr signr]))
      else
        (if kernel_trap regs trapnr \<noteq> 0 then (regs, [])
         else (regs, [Forward regs error_code str trapnr signr])))"

text \<open>Whether the emulator handled the fault: the value \<^verbatim>\<open>fh_do_error_trap\<close> tests.\<close>

definition trap_handled :: "'r trap_env \<Rightarrow> 'r \<Rightarrow> u64 \<Rightarrow> bool" where
  "trap_handled T regs trapnr =
     (if user_mode T regs then fst (user_trap T regs trapnr) \<noteq> 0
      else kernel_trap regs trapnr \<noteq> 0)"

subsection \<open>Hook descriptors and the kernel they are installed in\<close>

text \<open>
  Pointers are addresses into explicit stores: a \<^verbatim>\<open>struct ftrace_hook *\<close> is an index into
  the hook store (\<^verbatim>\<open>&hooks[i]\<close> is \<open>hooks + i\<close>), and the \<^verbatim>\<open>original\<close> field is an index
  into a store of \<^verbatim>\<open>unsigned long\<close> cells. The \<^verbatim>\<open>ops\<close> structure is embedded in its hook, so
  the kernel is handed the hook's address for \<^verbatim>\<open>&hook->ops\<close>. The field \<^verbatim>\<open>function\<close> is
  spelled \<open>hook_function\<close>.
\<close>

datatype ops_flag =
  FTRACE_OPS_FL_SAVE_REGS | FTRACE_OPS_FL_RECURSION_SAFE | FTRACE_OPS_FL_IPMODIFY

datatype thunk = No_thunk | Fh_ftrace_thunk

record ftrace_ops =
  func :: thunk
  flags :: "ops_flag set"

record ftrace_hook =
  name :: string
  hook_function :: nat
  original :: nat
  address :: u64
  ops :: ftrace_ops

text \<open>
  The kernel's kprobe and ftrace entry points are external: fields of an environment
  over a kernel state \<open>'k\<close>. \<^verbatim>\<open>register_kprobe\<close> returns its \<^verbatim>\<open>int\<close> and the \<^verbatim>\<open>kp.addr\<close> it left
  (the probe is zeroed by \<^verbatim>\<open>memset\<close> before the call).
\<close>

record 'k kernel_api =
  register_kprobe :: "string \<Rightarrow> 'k \<Rightarrow> int \<times> u64 \<times> 'k"
  unregister_kprobe :: "string \<Rightarrow> 'k \<Rightarrow> 'k"
  ftrace_set_filter_ip :: "nat \<Rightarrow> ftrace_ops \<Rightarrow> u64 \<Rightarrow> int \<Rightarrow> int \<Rightarrow> 'k \<Rightarrow> int \<times> 'k"
  register_ftrace_function :: "nat \<Rightarrow> ftrace_ops \<Rightarrow> 'k \<Rightarrow> int \<times> 'k"
  unregister_ftrace_function :: "nat \<Rightarrow> ftrace_ops \<Rightarrow> 'k \<Rightarrow> int \<times> 'k"

text \<open>
  Every kernel call and every log line is recorded, oldest first, with the value the
  kernel returned. A log line is recorded by its format string, without the trailing
  newline and without its argument.
\<close>

datatype kevent =
    Ev_register_kprobe string int
  | Ev_unregister_kprobe string
  | Ev_ftrace_set_filter_ip nat u64 int int int
  | Ev_register_ftrace_function nat int
  | Ev_unregister_ftrace_function nat int
  | Ev_pr_debug string
  | Ev_pr_info string

record 'k world =
  hookmem :: "nat \<Rightarrow> ftrace_hook"
  ulmem :: "nat \<Rightarrow> u64"
  kstate :: 'k
  klog :: "kevent list"

definition emit :: "kevent \<Rightarrow> 'k world \<Rightarrow> 'k world" where
  "emit e w = w\<lparr>klog := klog w @ [e]\<rparr>"

definition ENOENT :: int where
  "ENOENT = 2"

subsection \<open>Installing and removing one hook\<close>

definition fh_resolve_hook_address :: "'k kernel_api \<Rightarrow> nat \<Rightarrow> 'k world \<Rightarrow> int \<times> 'k world" where
  "fh_resolve_hook_address K hook w =
     (let (r, kp_addr, k1) = register_kprobe K ''kallsyms_lookup_name'' (kstate w);
          w1 = emit (Ev_register_kprobe ''kallsyms_lookup_name'' r) (w\<lparr>kstate := k1\<rparr>)
      in if r < 0 then (0, w1)
         else
           (let w2 = w1\<lparr>hookmem := (hookmem w1)(hook := (hookmem w1 hook)\<lparr>address := kp_addr\<rparr>)\<rparr>;
                w3 = emit (Ev_unregister_kprobe ''kallsyms_lookup_name'')
                       (w2\<lparr>kstate := unregister_kprobe K ''kallsyms_lookup_name'' (kstate w2)\<rparr>)
            in if address (hookmem w3 hook) = 0 then
                 (- ENOENT, emit (Ev_pr_debug ''unresolved symbol: %s'') w3)
               else
                 (0, w3\<lparr>ulmem := (ulmem w3)(original (hookmem w3 hook) :=
                                      address (hookmem w3 hook))\<rparr>)))"

definition fh_install_hook :: "'k kernel_api \<Rightarrow> nat \<Rightarrow> 'k world \<Rightarrow> int \<times> 'k world" where
  "fh_install_hook K hook w =
     (let (err, w1) = fh_resolve_hook_address K hook w
      in if err \<noteq> 0 then (err, w1)
         else
           (let w2 = w1\<lparr>hookmem := (hookmem w1)(hook := (hookmem w1 hook)\<lparr>ops :=
                        \<lparr>func = Fh_ftrace_thunk,
                         flags = {FTRACE_OPS_FL_SAVE_REGS, FTRACE_OPS_FL_RECURSION_SAFE,
                                  FTRACE_OPS_FL_IPMODIFY}\<rparr>\<rparr>)\<rparr>;
                h = hookmem w2 hook;
                (err1, k3) = ftrace_set_filter_ip K hook (ops h) (address h) 0 0 (kstate w2);
                w3 = emit (Ev_ftrace_set_filter_ip hook (address h) 0 0 err1) (w2\<lparr>kstate := k3\<rparr>)
            in if err1 \<noteq> 0 then
                 (err1, emit (Ev_pr_debug ''ftrace_set_filter_ip() failed: %d'') w3)
               else
                 (let (err2, k4) = register_ftrace_function K hook (ops h) (kstate w3);
                      w4 = emit (Ev_register_ftrace_function hook err2) (w3\<lparr>kstate := k4\<rparr>)
                  in if err2 \<noteq> 0 then
                       (let w5 = emit (Ev_pr_debug ''register_ftrace_function() failed: %d'') w4;
                            (r6, k6) = ftrace_set_filter_ip K hook (ops h) (address h) 1 0 (kstate w5)
                        in (err2, emit (Ev_ftrace_set_filter_ip hook (address h) 1 0 r6)
                                    (w5\<lparr>kstate := k6\<rparr>)))
                     else (0, w4))))"

definition fh_remove_hook :: "'k kernel_api \<Rightarrow> nat \<Rightarrow> 'k world \<Rightarrow> 'k world" where
  "fh_remove_hook K hook w =
     (let h = hookmem w hook;
          (err, k1) = unregister_ftrace_function K hook (ops h) (kstate w);
          w1 = emit (Ev_unregister_ftrace_function hook err) (w\<lparr>kstate := k1\<rparr>);
          w2 = (if err \<noteq> 0 then emit (Ev_pr_debug ''unregister_ftrace_function() failed: %d'') w1
                else w1);
          (err', k3) = ftrace_set_filter_ip K hook (ops h) (address h) 1 0 (kstate w2);
          w3 = emit (Ev_ftrace_set_filter_ip hook (address h) 1 0 err') (w2\<lparr>kstate := k3\<rparr>)
      in if err' \<noteq> 0 then emit (Ev_pr_debug ''ftrace_set_filter_ip() failed: %d'') w3 else w3)"

subsection \<open>Installing and removing an array of hooks\<close>

text \<open>
  The \<^verbatim>\<open>for\<close> loop of \<^verbatim>\<open>fh_install_hooks\<close>, from index \<open>i\<close>: it leaves with the error, the
  index it stopped at and the world; error 0 is the normal exit.
\<close>

function install_loop ::
  "'k kernel_api \<Rightarrow> nat \<Rightarrow> nat \<Rightarrow> nat \<Rightarrow> 'k world \<Rightarrow> int \<times> nat \<times> 'k world" where
  "install_loop K hooks count i w =
     (if i < count then
        (let (err, w1) = fh_install_hook K (hooks + i) w
         in if err \<noteq> 0 then (err, i, w1) else install_loop K hooks count (i + 1) w1)
      else (0, i, w))"
  by pat_completeness auto
termination
  by (relation "measure (\<lambda>(K, hooks, count, i, w). count - i)") auto

text \<open>The loop at the label \<^verbatim>\<open>error\<close>: \<^verbatim>\<open>while (i != 0) fh_remove_hook(&hooks[--i])\<close>.\<close>

fun rollback :: "'k kernel_api \<Rightarrow> nat \<Rightarrow> nat \<Rightarrow> 'k world \<Rightarrow> 'k world" where
  "rollback K hooks 0 w = w"
| "rollback K hooks (Suc i) w = rollback K hooks i (fh_remove_hook K (hooks + i) w)"

definition fh_install_hooks ::
  "'k kernel_api \<Rightarrow> nat \<Rightarrow> nat \<Rightarrow> 'k world \<Rightarrow> int \<times> 'k world" where
  "fh_install_hooks K hooks count w =
     (let (err, i, w1) = install_loop K hooks count 0 w
      in if err \<noteq> 0 then (err, rollback K hooks i w1) else (0, w1))"

function remove_loop :: "'k kernel_api \<Rightarrow> nat \<Rightarrow> nat \<Rightarrow> nat \<Rightarrow> 'k world \<Rightarrow> 'k world" where
  "remove_loop K hooks count i w =
     (if i < count then remove_loop K hooks count (i + 1) (fh_remove_hook K (hooks + i) w)
      else w)"
  by pat_completeness auto
termination
  by (relation "measure (\<lambda>(K, hooks, count, i, w). count - i)") auto

definition fh_remove_hooks :: "'k kernel_api \<Rightarrow> nat \<Rightarrow> nat \<Rightarrow> 'k world \<Rightarrow> 'k world" where
  "fh_remove_hooks K hooks count w = remove_loop K hooks count 0 w"

subsection \<open>Module load and unload\<close>

text \<open>
  \<^verbatim>\<open>demo_hooks\<close> is a file-scope array of one descriptor; it sits at address 0 of the hook
  store.
\<close>

definition demo_hooks :: nat where
  "demo_hooks = 0"

definition demo_hooks_size :: nat where
  "demo_hooks_size = 1"

definition fh_init :: "'k kernel_api \<Rightarrow> 'k world \<Rightarrow> int \<times> 'k world" where
  "fh_init K w =
     (let (err, w1) = fh_install_hooks K demo_hooks demo_hooks_size w
      in if err \<noteq> 0 then (err, w1) else (0, emit (Ev_pr_info ''module loaded'') w1))"

definition fh_exit :: "'k kernel_api \<Rightarrow> 'k world \<Rightarrow> 'k world" where
  "fh_exit K w = emit (Ev_pr_info ''module unloaded'') (fh_remove_hooks K demo_hooks demo_hooks_size w)"

subsection \<open>Reading the record of kernel calls\<close>

text \<open>
  The hooks whose \<^verbatim>\<open>register_ftrace_function\<close> returned 0 (the last step of a successful
  \<^verbatim>\<open>fh_install_hook\<close>), the hooks \<^verbatim>\<open>unregister_ftrace_function\<close> was called on, and the hooks
  whose filter \<^verbatim>\<open>ftrace_set_filter_ip\<close> was asked to remove, each in the order of the calls.
\<close>

fun installed_by :: "kevent list \<Rightarrow> nat list" where
  "installed_by [] = []"
| "installed_by (Ev_register_ftrace_function p r # es) =
     (if r = 0 then p # installed_by es else installed_by es)"
| "installed_by (_ # es) = installed_by es"

fun unregistered_by :: "kevent list \<Rightarrow> nat list" where
  "unregistered_by [] = []"
| "unregistered_by (Ev_unregister_ftrace_function p r # es) = p # unregistered_by es"
| "unregistered_by (_ # es) = unregistered_by es"

fun unfiltered_by :: "kevent list \<Rightarrow> nat list" where
  "unfiltered_by [] = []"
| "unfiltered_by (Ev_ftrace_set_filter_ip p ip rm rs r # es) =
     (if rm \<noteq> 0 then p # unfiltered_by es else unfiltered_by es)"
| "unfiltered_by (_ # es) = unfiltered_by es"

text \<open>
  The removal calls that returned an error, and the \<^verbatim>\<open>pr_debug\<close> lines, counted.
\<close>

fun failed_removals :: "kevent list \<Rightarrow> nat" where
  "failed_removals [] = 0"
| "failed_removals (Ev_unregister_ftrace_function p r # es) =
     (if r \<noteq> 0 then Suc (failed_removals es) else failed_removals es)"
| "failed_removals (Ev_ftrace_set_filter_ip p a rm rs r # es) =
     (if rm \<noteq> 0 \<and> r \<noteq> 0 then Suc (failed_removals es) else failed_removals es)"
| "failed_removals (_ # es) = failed_removals es"

fun debug_lines :: "kevent list \<Rightarrow> nat" where
  "debug_lines [] = 0"
| "debug_lines (Ev_pr_debug s # es) = Suc (debug_lines es)"
| "debug_lines (_ # es) = debug_lines es"

text \<open>
  What the record says is installed: starting from the hooks \<open>acc\<close>, a
  \<^verbatim>\<open>register_ftrace_function\<close> that returned 0 adds its hook and an
  \<^verbatim>\<open>unregister_ftrace_function\<close> that returned 0 takes it away; likewise a
  \<^verbatim>\<open>ftrace_set_filter_ip\<close> that returned 0 adds or takes away the hook's filter. A call that
  returned an error changes nothing.
\<close>

fun registered_after :: "nat list \<Rightarrow> kevent list \<Rightarrow> nat list" where
  "registered_after acc [] = acc"
| "registered_after acc (Ev_register_ftrace_function p r # es) =
     registered_after (if r = 0 then p # acc else acc) es"
| "registered_after acc (Ev_unregister_ftrace_function p r # es) =
     registered_after (if r = 0 then remove1 p acc else acc) es"
| "registered_after acc (_ # es) = registered_after acc es"

fun filtered_after :: "nat list \<Rightarrow> kevent list \<Rightarrow> nat list" where
  "filtered_after acc [] = acc"
| "filtered_after acc (Ev_ftrace_set_filter_ip p a rm rs r # es) =
     filtered_after (if r \<noteq> 0 then acc else if rm = 0 then p # acc else remove1 p acc) es"
| "filtered_after acc (_ # es) = filtered_after acc es"

section \<open>A kernel and a fault source to run the hook on\<close>

text \<open>
  The kernel side is external to the repository. To run the model on concrete inputs,
  \<open>sample_trap_env\<close> is a fault source over a two-field snapshot (whether the fault came
  from user mode, and the instruction pointer; its emulator handles a fault by stepping
  over five bytes when \<open>known\<close> holds of the pointer), and \<open>sample_kernel\<close> is a scripted
  kernel: \<^verbatim>\<open>register_kprobe\<close> looks the symbol up in a symbol table, \<^verbatim>\<open>ftrace_set_filter_ip\<close>
  accepts only the addresses of that table, registration and unregistration fail for
  the hooks the script lists, and the kernel keeps the lists of registered and filtered
  hooks.
\<close>

record trap_regs =
  from_user :: bool
  ip :: u64

definition sample_trap_env :: "(u64 \<Rightarrow> bool) \<Rightarrow> trap_regs trap_env" where
  "sample_trap_env known = \<lparr>
     user_mode = from_user,
     opemu_utrap = (\<lambda>r. if known (ip r) then (1, r\<lparr>ip := ip r + 5\<rparr>) else (0, r)) \<rparr>"

record ksim =
  symtab :: "(string \<times> u64) list"
  refuse_register :: "nat list"
  refuse_unregister :: "nat list"
  registered :: "nat list"
  filtered :: "nat list"

definition sample_kernel :: "ksim kernel_api" where
  "sample_kernel = \<lparr>
     register_kprobe = (\<lambda>sym k.
        (case map_of (symtab k) sym of None \<Rightarrow> (-2, 0, k) | Some a \<Rightarrow> (0, a, k))),
     unregister_kprobe = (\<lambda>sym k. k),
     ftrace_set_filter_ip = (\<lambda>p o_ops a rm rs k.
        if a \<notin> snd ` set (symtab k) then (-22, k)
        else if rm = 0 then (0, k\<lparr>filtered := p # filtered k\<rparr>)
        else if p \<in> set (filtered k) then (0, k\<lparr>filtered := removeAll p (filtered k)\<rparr>)
        else (-22, k)),
     register_ftrace_function = (\<lambda>p o_ops k.
        if p \<in> set (refuse_register k) then (-16, k)
        else (0, k\<lparr>registered := p # registered k\<rparr>)),
     unregister_ftrace_function = (\<lambda>p o_ops k.
        if p \<in> set (refuse_unregister k) \<or> p \<notin> set (registered k) then (-22, k)
        else (0, k\<lparr>registered := removeAll p (registered k)\<rparr>)) \<rparr>"

text \<open>
  \<open>demo_hook\<close> is the descriptor \<^verbatim>\<open>demo_hooks\<close> is initialised with by the \<^verbatim>\<open>HOOK\<close> macro
  (name, replacement and the cell for the original; address and ops zeroed). The name
  goes through \<^verbatim>\<open>SYSCALL_NAME\<close>, which prefixes it with \<^verbatim>\<open>__x64_\<close> when \<^verbatim>\<open>PTREGS_SYSCALL_STUBS\<close>
  is defined, that is on x86-64 with a kernel from 4.17 on, the configuration taken
  here. \<open>world_of h k\<close> is the world in which every descriptor is \<open>h\<close>, every
  \<^verbatim>\<open>unsigned long\<close> cell is 0, the kernel is in state \<open>k\<close> and nothing has been logged.
\<close>

definition PTREGS_SYSCALL_STUBS :: bool where
  "PTREGS_SYSCALL_STUBS = True"

definition SYSCALL_NAME :: "string \<Rightarrow> string" where
  "SYSCALL_NAME n = (if PTREGS_SYSCALL_STUBS then ''__x64_'' @ n else n)"

definition demo_hook :: ftrace_hook where
  "demo_hook = \<lparr> name = SYSCALL_NAME ''do_error_trap'', hook_function = 1, original = 0,
                 address = 0, ops = \<lparr> func = No_thunk, flags = {} \<rparr> \<rparr>"

definition world_of :: "ftrace_hook \<Rightarrow> ksim \<Rightarrow> ksim world" where
  "world_of h k = \<lparr> hookmem = (\<lambda>_. h), ulmem = (\<lambda>_. 0), kstate = k, klog = [] \<rparr>"

definition ksim0 :: ksim where
  "ksim0 = \<lparr> symtab = [(''kallsyms_lookup_name'', 0xFFFF0000), (''do_error_trap'', 0xFFFF1000)],
             refuse_register = [], refuse_unregister = [], registered = [], filtered = [] \<rparr>"

section \<open>Properties of the dispatcher\<close>

subsection \<open>What the two switches leave in ins\_size\<close>

lemma bmi_switch64_recognized:
  assumes "bmi_recognized opcode simd_prefix leading_opcode modreg"
  shows "\<exists>regs'. bmi_switch64 E regs vexreg opcode operand_size leading_opcode simd_prefix imm
           ins_size modreg num_dst m64src m64vsrc m64dst
         = Some (ins_size + (if opcode = 0xF0 then 1 else 0), regs')"
  using assms unfolding bmi_recognized_def bmi_switch64_def
  by (elim disjE conjE) (simp_all split: prod.splits)

lemma bmi_switch32_recognized:
  assumes "bmi_recognized opcode simd_prefix leading_opcode modreg"
  shows "\<exists>regs'. bmi_switch32 E regs vexreg opcode leading_opcode simd_prefix imm
           ins_size modreg num_dst m32src m32vsrc m32dst
         = Some (ins_size + (if opcode = 0xF0 then 1 else 0), regs')"
  using assms unfolding bmi_recognized_def bmi_switch32_def
  by (elim disjE conjE) (simp_all split: prod.splits)

text \<open>
  Whatever both switches leave in \<^verbatim>\<open>ins_size\<close> is what \<open>bmi_instruction\<close> returns, once its
  two reads have succeeded.
\<close>

lemma returned_bmi_instruction:
  assumes "read_modrm modrm = Some mb"
    and "read_bytep bytep (get_consumed E modrm) = Some imm"
    and "\<And>r v i n a b c. \<exists>regs'.
           bmi_switch64 E r v opcode operand_size leading_opcode simd_prefix i
             (ins_size + word_of_int (get_consumed E modrm)) (drop_bit 3 mb AND 7) n a b c
           = Some (sz, regs')"
    and "\<And>r v i n a b c. \<exists>regs'.
           bmi_switch32 E r v opcode leading_opcode simd_prefix i
             (ins_size + word_of_int (get_consumed E modrm)) (drop_bit 3 mb AND 7) n a b c
           = Some (sz, regs')"
  shows "returned (bmi_instruction E regs vexreg opcode modrm high_reg high_index high_base
            operand_size leading_opcode simd_prefix bytep ins_size modbyte) = Some (uint sz)"
proof (cases "is_saved_state64 E regs")
  case True
  obtain a b c where
    g: "get_x64regs_m64 E modrm high_reg high_index high_base vexreg regs modbyte = (a, b, c)"
    by (cases "get_x64regs_m64 E modrm high_reg high_index high_base vexreg regs modbyte") auto
  from assms(3) obtain regs' where
    "bmi_switch64 E regs vexreg opcode operand_size leading_opcode simd_prefix imm
       (ins_size + word_of_int (get_consumed E modrm)) (drop_bit 3 mb AND 7)
       (if high_reg \<noteq> 0 then (drop_bit 3 mb AND 7) + 8 else drop_bit 3 mb AND 7) a b c
     = Some (sz, regs')"
    by blast
  with True g assms(1,2) show ?thesis
    by (simp add: bmi_instruction_def returned_def Let_def)
next
  case False
  obtain a b c where
    g: "get_x64regs_m32 E modrm high_reg high_index high_base vexreg regs modbyte = (a, b, c)"
    by (cases "get_x64regs_m32 E modrm high_reg high_index high_base vexreg regs modbyte") auto
  from assms(4) obtain regs' where
    "bmi_switch32 E regs vexreg opcode leading_opcode simd_prefix imm
       (ins_size + word_of_int (get_consumed E modrm)) (drop_bit 3 mb AND 7)
       (if high_reg \<noteq> 0 then (drop_bit 3 mb AND 7) + 8 else drop_bit 3 mb AND 7) a b c
     = Some (sz, regs')"
    by blast
  with False g assms(1,2) show ?thesis
    by (simp add: bmi_instruction_def returned_def Let_def)
qed

lemma uint_size_sum:
  "uint ((ins_size :: u8) + word_of_int c + (if (opcode :: u8) = 0xF0 then 1 else 0))
     = (uint ins_size + c + (if opcode = 0xF0 then 1 else 0)) mod 256"
  by (simp add: uint_word_ariths uint_word_of_int mod_simps)

subsection \<open>Unmatched prefix or map under a known opcode byte\<close>

text \<open>
  Under one of the six \<^verbatim>\<open>case\<close> labels, a combination that runs no helper leaves the
  switch through \<^verbatim>\<open>break\<close> with \<^verbatim>\<open>ins_size\<close> and the registers as they were.
\<close>

lemma bmi_switch64_unmatched:
  assumes "opcode \<in> {0xF0, 0xF2, 0xF3, 0xF5, 0xF6, 0xF7}"
    and "\<not> bmi_recognized opcode simd_prefix leading_opcode modreg"
  shows "bmi_switch64 E regs vexreg opcode operand_size leading_opcode simd_prefix imm
           ins_size modreg num_dst m64src m64vsrc m64dst = Some (ins_size, regs)"
proof -
  from assms(1) consider "opcode = 0xF0" | "opcode = 0xF2" | "opcode = 0xF3" | "opcode = 0xF5"
    | "opcode = 0xF6" | "opcode = 0xF7" by auto
  then show ?thesis
  proof cases
    case 1 with assms(2) show ?thesis by (simp add: bmi_recognized_def bmi_switch64_def)
  next
    case 2 with assms(2) show ?thesis by (simp add: bmi_recognized_def bmi_switch64_def)
  next
    case 3 with assms(2) show ?thesis by (simp add: bmi_recognized_def bmi_switch64_def)
  next
    case 4 with assms(2) show ?thesis by (simp add: bmi_recognized_def bmi_switch64_def)
  next
    case 5 with assms(2) show ?thesis by (simp add: bmi_recognized_def bmi_switch64_def)
  next
    case 6 with assms(2) show ?thesis by (simp add: bmi_recognized_def bmi_switch64_def)
  qed
qed

lemma bmi_switch32_unmatched:
  assumes "opcode \<in> {0xF0, 0xF2, 0xF3, 0xF5, 0xF6, 0xF7}"
    and "\<not> bmi_recognized opcode simd_prefix leading_opcode modreg"
  shows "bmi_switch32 E regs vexreg opcode leading_opcode simd_prefix imm
           ins_size modreg num_dst m32src m32vsrc m32dst = Some (ins_size, regs)"
proof -
  from assms(1) consider "opcode = 0xF0" | "opcode = 0xF2" | "opcode = 0xF3" | "opcode = 0xF5"
    | "opcode = 0xF6" | "opcode = 0xF7" by auto
  then show ?thesis
  proof cases
    case 1 with assms(2) show ?thesis by (simp add: bmi_recognized_def bmi_switch32_def)
  next
    case 2 with assms(2) show ?thesis by (simp add: bmi_recognized_def bmi_switch32_def)
  next
    case 3 with assms(2) show ?thesis by (simp add: bmi_recognized_def bmi_switch32_def)
  next
    case 4 with assms(2) show ?thesis by (simp add: bmi_recognized_def bmi_switch32_def)
  next
    case 5 with assms(2) show ?thesis by (simp add: bmi_recognized_def bmi_switch32_def)
  next
    case 6 with assms(2) show ?thesis by (simp add: bmi_recognized_def bmi_switch32_def)
  qed
qed

lemma bmi_instruction_unmatched:
  assumes "read_modrm modrm = Some mb"
    and "read_bytep bytep (get_consumed E modrm) = Some imm"
    and "opcode \<in> {0xF0, 0xF2, 0xF3, 0xF5, 0xF6, 0xF7}"
    and "\<not> bmi_recognized opcode simd_prefix leading_opcode (drop_bit 3 mb AND 7)"
  shows "bmi_instruction E regs vexreg opcode modrm high_reg high_index high_base
            operand_size leading_opcode simd_prefix bytep ins_size modbyte
         = Inr (uint (ins_size + word_of_int (get_consumed E modrm)), regs)"
  using assms(1,2)
  by (simp add: bmi_instruction_def Let_def bmi_switch64_unmatched [OF assms(3,4)]
      bmi_switch32_unmatched [OF assms(3,4)] split: prod.splits)

text \<open>
  C1. The claim: every combination of opcode, prefix class and opcode map that is not a
  recognized operation makes \<open>bmi_instruction\<close> return 0. At opcode 0xF0 (the byte of
  \<^verbatim>\<open>rorx\<close>) with prefix class none and map 0F38, which is no recognized operation, the
  \<^verbatim>\<open>case\<close> runs no helper and leaves through \<^verbatim>\<open>break\<close>: the call returns \<^verbatim>\<open>ins_size\<close> plus the
  decoder's count, here 4 + 1 = 5, and the registers are untouched. Only an opcode byte
  outside the six \<^verbatim>\<open>case\<close> labels reaches \<^verbatim>\<open>default: return 0\<close>.
\<close>

theorem bmi_unmatched_prefix_returns_size:
  "\<not> bmi_recognized 0xF0 0 2 1 \<and>
   bmi_instruction sample_env regs0 3 0xF0 [0xC8] 0 0 0 64 2 0 [0xC8, 0] 4 0xC8 = Inr (5, regs0)"
  by (simp add: bmi_recognized_def bmi_instruction_def read_modrm_def read_bytep_def
      sample_env_def sample_get_consumed_def bmi_switch64_def regs0_def sample_get_x64regs_def)

subsection \<open>The blsr, blsmsk, blsi group\<close>

text \<open>
  C3. With opcode 0xF3, prefix class none (\<^verbatim>\<open>simd_prefix\<close> 0) and map 0F38
  (\<^verbatim>\<open>leading_opcode\<close> 2), a ModRM.reg field of 1, 2 or 3 runs \<^verbatim>\<open>blsr\<close>, \<^verbatim>\<open>blsmsk\<close> or \<^verbatim>\<open>blsi\<close>
  respectively on the source operand, in the 64-bit and in the 32-bit branch, and the
  result is stored by the load helper at index \<^verbatim>\<open>vexreg\<close> (the vvvv field): the index
  derived from ModRM.reg or ModRM.rm is not used.
\<close>

theorem bls_group_writes_vexreg:
  assumes "read_modrm modrm = Some mb"
    and "read_bytep bytep (get_consumed E modrm) = Some imm"
    and "drop_bit 3 mb AND 7 = sel"
    and "sel = 1 \<or> sel = 2 \<or> sel = 3"
  shows "regs_after (bmi_instruction E regs vexreg 0xF3 modrm high_reg high_index high_base
            operand_size 2 0 bytep ins_size modbyte) =
     Some (if is_saved_state64 E regs then
             (let (m64src, m64vsrc, m64dst) =
                    get_x64regs_m64 E modrm high_reg high_index high_base vexreg regs modbyte;
                  (m64res, regs1) =
                    (if sel = 1 then blsr64 E m64src operand_size regs
                     else if sel = 2 then blsmsk64 E m64src operand_size regs
                     else blsi64 E m64src operand_size regs)
              in load_m64 E vexreg m64res regs1)
           else
             (let (m32src, m32vsrc, m32dst) =
                    get_x64regs_m32 E modrm high_reg high_index high_base vexreg regs modbyte;
                  (m32res, regs1) =
                    (if sel = 1 then blsr32 E m32src regs
                     else if sel = 2 then blsmsk32 E m32src regs
                     else blsi32 E m32src regs)
              in load_m32 E vexreg m32res regs1))"
  using assms
  by (auto simp: bmi_instruction_def bmi_switch64_def bmi_switch32_def regs_after_def Let_def
      split: prod.splits)

text \<open>
  On the register file \<open>regs0\<close>: ModRM 0xC8 is register-direct with reg = 1 and rm = 0, and
  vvvv is 3. \<^verbatim>\<open>blsr\<close> of register 0 (0x10) is 0, and it lands in register 3; registers 0
  and 1 keep their values.
\<close>

theorem bls_group_writes_vexreg_witness:
  "read_modrm [0xC8] = Some 0xC8 \<and> drop_bit 3 (0xC8 :: u8) AND 7 = 1 \<and>
   regs_after (bmi_instruction sample_env regs0 3 0xF3 [0xC8] 0 0 0 64 2 0 [0xC8, 0] 4 0xC8) =
     Some \<lparr> gpr = [0x10, 0x11, 0x12, 0, 0x14, 0x15, 0x16, 0x17,
                     0x18, 0x19, 0x1A, 0x1B, 0x1C, 0x1D, 0x1E, 0x1F], long_mode = True \<rparr>"
proof -
  have m: "read_modrm [0xC8] = Some 0xC8" by (simp add: read_modrm_def)
  have b: "read_bytep [0xC8, 0] (get_consumed sample_env [0xC8]) = Some 0"
    by (simp add: read_bytep_def sample_env_def sample_get_consumed_def)
  have s: "drop_bit 3 (0xC8 :: u8) AND 7 = 1" by simp
  show ?thesis
    using bls_group_writes_vexreg [OF m b s, where regs = regs0 and vexreg = 3 and high_reg = 0
        and high_index = 0 and high_base = 0 and operand_size = 64 and ins_size = 4
        and modbyte = "0xC8"] m s
    by (simp add: sample_env_def regs0_def sample_get_x64regs_def sample_reg_def sample_load_def
        at_width_def spec_blsr_def)
qed

subsection \<open>The byte count returned\<close>

text \<open>
  \<^verbatim>\<open>ins_size\<close> is a \<^verbatim>\<open>uint8_t\<close>: what a recognized instruction returns is the sum of the
  incoming \<^verbatim>\<open>ins_size\<close>, the decoder's count and the immediate byte of \<^verbatim>\<open>rorx\<close>, as a byte.
\<close>

lemma bmi_instruction_size_mod:
  assumes "read_modrm modrm = Some mb"
    and "read_bytep bytep (get_consumed E modrm) = Some imm"
    and "bmi_recognized opcode simd_prefix leading_opcode (drop_bit 3 mb AND 7)"
  shows "returned (bmi_instruction E regs vexreg opcode modrm high_reg high_index high_base
            operand_size leading_opcode simd_prefix bytep ins_size modbyte)
         = Some ((uint ins_size + get_consumed E modrm + (if opcode = 0xF0 then 1 else 0))
                   mod 256)"
proof -
  have "returned (bmi_instruction E regs vexreg opcode modrm high_reg high_index high_base
            operand_size leading_opcode simd_prefix bytep ins_size modbyte)
         = Some (uint (ins_size + word_of_int (get_consumed E modrm)
                        + (if opcode = 0xF0 then 1 else 0)))"
    by (rule returned_bmi_instruction [OF assms(1,2)])
      (rule bmi_switch64_recognized [OF assms(3)] bmi_switch32_recognized [OF assms(3)])+
  then show ?thesis by (simp only: uint_size_sum)
qed

text \<open>
  C4. For every recognized instruction, the byte count returned by \<open>bmi_instruction\<close> is
  the incoming \<^verbatim>\<open>ins_size\<close> plus \<^verbatim>\<open>get_consumed(modrm)\<close>, plus exactly one byte for \<^verbatim>\<open>rorx\<close>
  (opcode 0xF0, the only operation with an immediate) and nothing more for any other
  operation; the resumed instruction pointer is the fault address advanced by exactly
  this total. The total is a byte count of one instruction, so it lies between 0 and
  255: an x86 instruction has at most 15 bytes.
\<close>

theorem bmi_instruction_byte_count:
  assumes "read_modrm modrm = Some mb"
    and "read_bytep bytep (get_consumed E modrm) = Some imm"
    and "bmi_recognized opcode simd_prefix leading_opcode (drop_bit 3 mb AND 7)"
    and "0 \<le> uint ins_size + get_consumed E modrm + (if opcode = 0xF0 then 1 else 0)"
    and "uint ins_size + get_consumed E modrm + (if opcode = 0xF0 then 1 else 0) < 256"
  shows "returned (bmi_instruction E regs vexreg opcode modrm high_reg high_index high_base
            operand_size leading_opcode simd_prefix bytep ins_size modbyte)
         = Some (uint ins_size + get_consumed E modrm + (if opcode = 0xF0 then 1 else 0)) \<and>
     resumed_ip fault_ip (bmi_instruction E regs vexreg opcode modrm high_reg high_index
            high_base operand_size leading_opcode simd_prefix bytep ins_size modbyte)
         = Some (fault_ip
                 + word_of_int (uint ins_size + get_consumed E modrm
                                + (if opcode = 0xF0 then 1 else 0)))"
proof -
  have "(uint ins_size + get_consumed E modrm + (if opcode = 0xF0 then 1 else 0)) mod 256
        = uint ins_size + get_consumed E modrm + (if opcode = 0xF0 then 1 else 0)"
    using assms(4,5) by (intro mod_pos_pos_trivial) simp_all
  with bmi_instruction_size_mod [OF assms(1,2,3)]
  have r: "returned (bmi_instruction E regs vexreg opcode modrm high_reg high_index high_base
            operand_size leading_opcode simd_prefix bytep ins_size modbyte)
         = Some (uint ins_size + get_consumed E modrm + (if opcode = 0xF0 then 1 else 0))"
    by simp
  then show ?thesis by (simp add: resumed_ip_def writeback_ip_def)
qed

text \<open>
  \<^verbatim>\<open>rorx\<close> with ModRM 0xC8 and immediate 7 after four prefix and opcode bytes, faulting at
  0x401000: the count is 4 + 1 + 1 = 6 and execution resumes at 0x401006.
\<close>

theorem bmi_instruction_byte_count_witness:
  "read_modrm [0xC8] = Some 0xC8 \<and>
   read_bytep [0xC8, 7] (get_consumed sample_env [0xC8]) = Some 7 \<and>
   bmi_recognized 0xF0 3 3 (drop_bit 3 0xC8 AND 7) \<and>
   returned (bmi_instruction sample_env regs0 3 0xF0 [0xC8] 0 0 0 64 3 3 [0xC8, 7] 4 0xC8)
     = Some 6 \<and>
   resumed_ip 0x401000
      (bmi_instruction sample_env regs0 3 0xF0 [0xC8] 0 0 0 64 3 3 [0xC8, 7] 4 0xC8)
     = Some 0x401006"
proof -
  have m: "read_modrm [0xC8] = Some 0xC8" by (simp add: read_modrm_def)
  have c: "get_consumed sample_env [0xC8] = 1"
    by (simp add: sample_env_def sample_get_consumed_def)
  have b: "read_bytep [0xC8, 7] (get_consumed sample_env [0xC8]) = Some 7"
    by (simp add: read_bytep_def c)
  have r: "bmi_recognized 0xF0 3 3 (drop_bit 3 0xC8 AND 7)" by (simp add: bmi_recognized_def)
  have lo: "0 \<le> uint (4 :: u8) + get_consumed sample_env [0xC8]
                + (if (0xF0 :: u8) = 0xF0 then 1 else 0)"
    by (simp add: c)
  have hi: "uint (4 :: u8) + get_consumed sample_env [0xC8]
                + (if (0xF0 :: u8) = 0xF0 then 1 else 0) < 256"
    by (simp add: c)
  show ?thesis
    using bmi_instruction_byte_count [OF m b r lo hi, where regs = regs0 and vexreg = 3
        and high_reg = 0 and high_index = 0 and high_base = 0 and operand_size = 64
        and modbyte = "0xC8" and fault_ip = "0x401000"] m b r
    by (simp add: c)
qed

subsection \<open>The read of the immediate\<close>

text \<open>
  C10. For every opcode, prefix class and map, whether or not the operation has an
  immediate and also when the opcode is none of the \<^verbatim>\<open>case\<close> labels, \<open>bmi_instruction\<close>
  reads \<^verbatim>\<open>bytep[get_consumed(modrm)]\<close> before the switch: once the ModRM byte itself is
  readable, the call faults on that read exactly when the index lies outside the bytes
  \<^verbatim>\<open>bytep\<close> gives access to. So the buffer has to be defined at that index for every call.
\<close>

theorem bmi_instruction_reads_bytep:
  assumes "read_modrm modrm = Some mb"
  shows "bmi_instruction E regs vexreg opcode modrm high_reg high_index high_base
            operand_size leading_opcode simd_prefix bytep ins_size modbyte = Inl Fault_bytep
     \<longleftrightarrow> \<not> (0 \<le> get_consumed E modrm \<and> nat (get_consumed E modrm) < length bytep)"
  using assms
  by (auto simp: bmi_instruction_def read_bytep_def Let_def split: prod.splits option.splits)

text \<open>
  \<^verbatim>\<open>andn\<close> has no immediate; with a buffer that ends after the ModRM byte the call faults
  all the same, and so does a call with an opcode byte that is no \<^verbatim>\<open>case\<close> label.
\<close>

theorem bmi_instruction_reads_bytep_witness:
  "read_modrm [0xC8] = Some 0xC8 \<and>
   bmi_instruction sample_env regs0 3 0xF2 [0xC8] 0 0 0 64 2 0 [0xC8] 4 0xC8 = Inl Fault_bytep \<and>
   bmi_instruction sample_env regs0 3 0x10 [0xC8] 0 0 0 64 2 0 [0xC8] 4 0xC8 = Inl Fault_bytep"
proof -
  have m: "read_modrm [0xC8] = Some 0xC8" by (simp add: read_modrm_def)
  have c: "get_consumed sample_env [0xC8] = 1"
    by (simp add: sample_env_def sample_get_consumed_def)
  show ?thesis
    using bmi_instruction_reads_bytep [OF m, where E = sample_env and regs = regs0
        and vexreg = 3 and opcode = "0xF2" and high_reg = 0 and high_index = 0 and high_base = 0
        and operand_size = 64 and leading_opcode = 2 and simd_prefix = 0 and bytep = "[0xC8]"
        and ins_size = 4 and modbyte = "0xC8"]
      bmi_instruction_reads_bytep [OF m, where E = sample_env and regs = regs0
        and vexreg = 3 and opcode = "0x10" and high_reg = 0 and high_index = 0 and high_base = 0
        and operand_size = 64 and leading_opcode = 2 and simd_prefix = 0 and bytep = "[0xC8]"
        and ins_size = 4 and modbyte = "0xC8"] m c
    by simp
qed

section \<open>Round trip of pdep and pext\<close>

lemma length_bits_of [simp]: "length (bits_of (w :: 'a::len word)) = LENGTH('a)"
  by (simp add: bits_of_def)

lemma bits_of_word_of_bits:
  "bits_of (word_of_bits bs :: 'a::len word)
     = take LENGTH('a) bs @ replicate (LENGTH('a) - length bs) False"
  unfolding word_of_bits_def bits_of_def
  by (rule nth_equalityI) (auto simp: bit_horner_sum_bit_word_iff nth_append)

lemma length_pdep_bits [simp]: "length (pdep_bits s m) = length m"
  by (induction s m rule: pdep_bits.induct) auto

text \<open>
  On bit lists: extracting under the mask what was deposited under it gives back the
  first bits of the source, as many as the mask has set bits.
\<close>

lemma pext_pdep_bits:
  "length (filter id m) \<le> length s \<Longrightarrow>
     pext_bits (pdep_bits s m) m = take (length (filter id m)) s"
  by (induction s m rule: pdep_bits.induct) auto

lemma word_of_bits_take:
  "(word_of_bits (take k (bits_of w)) :: 'a::len word) = w AND mask k"
  unfolding word_of_bits_def bits_of_def
  by (rule bit_word_eqI) (auto simp: bit_horner_sum_bit_word_iff bit_simps)

lemma popcount_le: "popcount (m :: 'a::len word) \<le> LENGTH('a)"
  unfolding popcount_def by (rule order_trans [OF length_filter_le]) simp

lemma pext_pdep: "pext (pdep v m) m = v AND popcount_mask m"
proof -
  have "bits_of (pdep v m) = pdep_bits (bits_of v) (bits_of m)"
    by (simp add: pdep_def bits_of_word_of_bits)
  moreover have "length (filter id (bits_of m)) \<le> length (bits_of v)"
    using popcount_le [of m] by (simp add: popcount_def)
  ultimately have "pext (pdep v m) m = word_of_bits (take (popcount m) (bits_of v))"
    by (simp add: pext_def pext_pdep_bits popcount_def)
  then show ?thesis
    by (simp add: word_of_bits_take popcount_mask_def)
qed

text \<open>
  C8. For all 64-bit values \<open>v\<close> and masks \<open>m\<close>:
  \<open>pext (pdep (v & popcount_mask m) m) m = v & popcount_mask m\<close>, where \<open>popcount_mask m\<close>
  keeps as many low bits as \<open>m\<close> has set bits.
\<close>

theorem pext_pdep_roundtrip:
  "pext (pdep (v AND popcount_mask m) m) m = v AND popcount_mask (m :: u64)"
  by (simp add: pext_pdep)

section \<open>Properties of the fault dispatch\<close>

text \<open>
  C2. Emulation is attempted only for a fault from user mode with trap number 6. A fault
  from kernel mode, or with any other trap number, goes to the original handler with
  the register snapshot, error code, string, trap number and signal number it came
  with; the emulator is not called and the snapshot is unchanged.
\<close>

theorem fh_do_error_trap_forwards:
  "(\<not> user_mode T regs \<or> trapnr \<noteq> 6 \<longrightarrow>
      fh_do_error_trap T regs error_code str trapnr signr
        = (regs, [Forward regs error_code str trapnr signr])) \<and>
   (filter is_Emulate (snd (fh_do_error_trap T regs error_code str trapnr signr)) \<noteq> [] \<longrightarrow>
      user_mode T regs \<and> trapnr = 6)"
  by (auto simp: fh_do_error_trap_def user_trap_def kernel_trap_def split: prod.splits if_splits)

text \<open>
  An invalid-opcode fault from kernel mode and a general-protection fault (13) from user
  mode are forwarded as they came; an invalid-opcode fault from user mode reaches the
  emulator.
\<close>

theorem fh_do_error_trap_forwards_witness:
  "\<not> user_mode (sample_trap_env (\<lambda>a. True)) \<lparr>from_user = False, ip = 0x1000\<rparr> \<and>
   fh_do_error_trap (sample_trap_env (\<lambda>a. True)) \<lparr>from_user = False, ip = 0x1000\<rparr>
       0 ''invalid opcode'' 6 4
     = (\<lparr>from_user = False, ip = 0x1000\<rparr>,
        [Forward \<lparr>from_user = False, ip = 0x1000\<rparr> 0 ''invalid opcode'' 6 4]) \<and>
   fh_do_error_trap (sample_trap_env (\<lambda>a. True)) \<lparr>from_user = True, ip = 0x1000\<rparr>
       0 ''general protection'' 13 11
     = (\<lparr>from_user = True, ip = 0x1000\<rparr>,
        [Forward \<lparr>from_user = True, ip = 0x1000\<rparr> 0 ''general protection'' 13 11]) \<and>
   filter is_Emulate (snd (fh_do_error_trap (sample_trap_env (\<lambda>a. True))
       \<lparr>from_user = True, ip = 0x1000\<rparr> 0 ''invalid opcode'' 6 4)) \<noteq> [] \<and>
   user_mode (sample_trap_env (\<lambda>a. True)) \<lparr>from_user = True, ip = 0x1000\<rparr>"
proof -
  have k: "\<not> user_mode (sample_trap_env (\<lambda>a. True)) \<lparr>from_user = False, ip = 0x1000\<rparr>"
    by (simp add: sample_trap_env_def)
  have u: "user_mode (sample_trap_env (\<lambda>a. True)) \<lparr>from_user = True, ip = 0x1000\<rparr>"
    by (simp add: sample_trap_env_def)
  have e: "filter is_Emulate (snd (fh_do_error_trap (sample_trap_env (\<lambda>a. True))
       \<lparr>from_user = True, ip = 0x1000\<rparr> 0 ''invalid opcode'' 6 4)) \<noteq> []"
    by (simp add: fh_do_error_trap_def user_trap_def sample_trap_env_def)
  have n: "(13 :: u64) \<noteq> 6" by simp
  have f1: "fh_do_error_trap (sample_trap_env (\<lambda>a. True)) \<lparr>from_user = False, ip = 0x1000\<rparr>
       0 ''invalid opcode'' 6 4
     = (\<lparr>from_user = False, ip = 0x1000\<rparr>,
        [Forward \<lparr>from_user = False, ip = 0x1000\<rparr> 0 ''invalid opcode'' 6 4])"
    using k fh_do_error_trap_forwards [of "sample_trap_env (\<lambda>a. True)"
        "\<lparr>from_user = False, ip = 0x1000\<rparr>" 6 0 "''invalid opcode''" 4]
    by blast
  have f2: "fh_do_error_trap (sample_trap_env (\<lambda>a. True)) \<lparr>from_user = True, ip = 0x1000\<rparr>
       0 ''general protection'' 13 11
     = (\<lparr>from_user = True, ip = 0x1000\<rparr>,
        [Forward \<lparr>from_user = True, ip = 0x1000\<rparr> 0 ''general protection'' 13 11])"
    using n fh_do_error_trap_forwards [of "sample_trap_env (\<lambda>a. True)"
        "\<lparr>from_user = True, ip = 0x1000\<rparr>" 13 0 "''general protection''" 11]
    by blast
  from k u e f1 f2 show ?thesis by blast
qed

text \<open>
  C9. Every call of \<open>fh_do_error_trap\<close> ends in one of two ways: the fault was handled
  (\<^verbatim>\<open>user_trap\<close> or \<^verbatim>\<open>kernel_trap\<close> returned nonzero) and the original handler is not called
  at all, or it was not handled and the original handler is called exactly once.
\<close>

theorem fh_do_error_trap_exactly_one:
  "length (filter is_Forward (snd (fh_do_error_trap T regs error_code str trapnr signr)))
     = (if trap_handled T regs trapnr then 0 else 1)"
  by (auto simp: fh_do_error_trap_def trap_handled_def user_trap_def kernel_trap_def
      split: prod.splits if_splits)

text \<open>
  A user-mode invalid-opcode fault the emulator knows is handled and not forwarded; one
  it does not know is forwarded once.
\<close>

theorem fh_do_error_trap_exactly_one_witness:
  "trap_handled (sample_trap_env (\<lambda>a. True)) \<lparr>from_user = True, ip = 0x1000\<rparr> 6 \<and>
   length (filter is_Forward (snd (fh_do_error_trap (sample_trap_env (\<lambda>a. True))
       \<lparr>from_user = True, ip = 0x1000\<rparr> 0 ''invalid opcode'' 6 4))) = 0 \<and>
   \<not> trap_handled (sample_trap_env (\<lambda>a. False)) \<lparr>from_user = True, ip = 0x1000\<rparr> 6 \<and>
   length (filter is_Forward (snd (fh_do_error_trap (sample_trap_env (\<lambda>a. False))
       \<lparr>from_user = True, ip = 0x1000\<rparr> 0 ''invalid opcode'' 6 4))) = 1"
proof -
  have h: "trap_handled (sample_trap_env (\<lambda>a. True)) \<lparr>from_user = True, ip = 0x1000\<rparr> 6"
    by (simp add: trap_handled_def user_trap_def sample_trap_env_def)
  have n: "\<not> trap_handled (sample_trap_env (\<lambda>a. False)) \<lparr>from_user = True, ip = 0x1000\<rparr> 6"
    by (simp add: trap_handled_def user_trap_def sample_trap_env_def)
  have f1: "length (filter is_Forward (snd (fh_do_error_trap (sample_trap_env (\<lambda>a. True))
       \<lparr>from_user = True, ip = 0x1000\<rparr> 0 ''invalid opcode'' 6 4))) = 0"
    using h by (simp only: fh_do_error_trap_exactly_one if_True)
  have f2: "length (filter is_Forward (snd (fh_do_error_trap (sample_trap_env (\<lambda>a. False))
       \<lparr>from_user = True, ip = 0x1000\<rparr> 0 ''invalid opcode'' 6 4))) = 1"
    using n by (simp only: fh_do_error_trap_exactly_one if_False)
  from h n f1 f2 show ?thesis by blast
qed

section \<open>Properties of hook installation and removal\<close>

subsection \<open>Reading a record that has grown\<close>

lemma installed_by_append [simp]: "installed_by (a @ b) = installed_by a @ installed_by b"
  by (induction a rule: installed_by.induct) auto

lemma unregistered_by_append [simp]:
  "unregistered_by (a @ b) = unregistered_by a @ unregistered_by b"
  by (induction a rule: unregistered_by.induct) auto

lemma unfiltered_by_append [simp]: "unfiltered_by (a @ b) = unfiltered_by a @ unfiltered_by b"
  by (induction a rule: unfiltered_by.induct) auto

lemma failed_removals_append [simp]:
  "failed_removals (a @ b) = failed_removals a + failed_removals b"
  by (induction a rule: failed_removals.induct) auto

lemma debug_lines_append [simp]: "debug_lines (a @ b) = debug_lines a + debug_lines b"
  by (induction a rule: debug_lines.induct) auto

lemma klog_emit [simp]: "klog (emit e w) = klog w @ [e]"
  by (simp add: emit_def)

lemma kstate_emit [simp]: "kstate (emit e w) = kstate w"
  by (simp add: emit_def)

lemma hookmem_emit [simp]: "hookmem (emit e w) = hookmem w"
  by (simp add: emit_def)

subsection \<open>One hook\<close>

lemma fh_resolve_hook_address_log:
  assumes "fh_resolve_hook_address K p w = (err, w')"
  shows "installed_by (klog w') = installed_by (klog w)
     \<and> unregistered_by (klog w') = unregistered_by (klog w)
     \<and> unfiltered_by (klog w') = unfiltered_by (klog w)"
  using assms
  by (auto simp: fh_resolve_hook_address_def Let_def split: prod.splits if_splits)

text \<open>
  \<open>fh_install_hook\<close> returns 0 exactly when its \<^verbatim>\<open>register_ftrace_function\<close> returned 0, it
  never unregisters, and a call that returns 0 has removed no filter.
\<close>

lemma fh_install_hook_log:
  assumes "fh_install_hook K p w = (err, w')"
  shows "installed_by (klog w') = installed_by (klog w) @ (if err = 0 then [p] else [])
     \<and> unregistered_by (klog w') = unregistered_by (klog w)
     \<and> (\<exists>pre. unfiltered_by (klog w') = unfiltered_by (klog w) @ pre \<and> (err = 0 \<longrightarrow> pre = []))"
proof -
  obtain e1 w1 where r: "fh_resolve_hook_address K p w = (e1, w1)"
    by (cases "fh_resolve_hook_address K p w") auto
  note l = fh_resolve_hook_address_log [OF r]
  show ?thesis
    using assms r l
    by (auto simp: fh_install_hook_def Let_def split: prod.splits if_splits)
qed

text \<open>
  \<open>fh_remove_hook\<close> makes both removal calls whatever either returns, and writes one
  \<^verbatim>\<open>pr_debug\<close> line per call that failed.
\<close>

lemma fh_remove_hook_log:
  "installed_by (klog (fh_remove_hook K p w)) = installed_by (klog w)
   \<and> unregistered_by (klog (fh_remove_hook K p w)) = unregistered_by (klog w) @ [p]
   \<and> unfiltered_by (klog (fh_remove_hook K p w)) = unfiltered_by (klog w) @ [p]
   \<and> debug_lines (klog (fh_remove_hook K p w)) + failed_removals (klog w)
       = debug_lines (klog w) + failed_removals (klog (fh_remove_hook K p w))"
  by (auto simp: fh_remove_hook_def Let_def split: prod.splits)

subsection \<open>The loops\<close>

lemma install_loop_log:
  "install_loop K hooks count i w = (err, j, w') \<Longrightarrow> i \<le> count \<Longrightarrow>
     i \<le> j \<and> j \<le> count \<and> (err = 0 \<longrightarrow> j = count) \<and> (err \<noteq> 0 \<longrightarrow> j < count) \<and>
     installed_by (klog w') = installed_by (klog w) @ map ((+) hooks) [i..<j] \<and>
     unregistered_by (klog w') = unregistered_by (klog w) \<and>
     (\<exists>pre. unfiltered_by (klog w') = unfiltered_by (klog w) @ pre \<and> (err = 0 \<longrightarrow> pre = []))"
proof (induction K hooks count i w rule: install_loop.induct)
  case (1 K hooks count i w)
  show ?case
  proof (cases "i < count")
    case False
    with "1.prems" show ?thesis by (simp add: install_loop.simps [of K hooks count i w])
  next
    case True
    obtain e1 w1 where h: "fh_install_hook K (hooks + i) w = (e1, w1)"
      by (cases "fh_install_hook K (hooks + i) w") auto
    note l = fh_install_hook_log [OF h]
    show ?thesis
    proof (cases "e1 = 0")
      case False
      with True h "1.prems" have "err = e1" "j = i" "w' = w1"
        by (simp_all add: install_loop.simps [of K hooks count i w])
      with False True l show ?thesis by auto
    next
      case e0: True
      with True h "1.prems" have rec: "install_loop K hooks count (i + 1) w1 = (err, j, w')"
        by (simp add: install_loop.simps [of K hooks count i w])
      from True have le: "i + 1 \<le> count" by simp
      note ih = "1.IH" [OF True h [symmetric] refl _ rec le]
      from e0 have ih':
        "i + 1 \<le> j \<and> j \<le> count \<and> (err = 0 \<longrightarrow> j = count) \<and> (err \<noteq> 0 \<longrightarrow> j < count) \<and>
         installed_by (klog w') = installed_by (klog w1) @ map ((+) hooks) [i + 1..<j] \<and>
         unregistered_by (klog w') = unregistered_by (klog w1) \<and>
         (\<exists>pre. unfiltered_by (klog w') = unfiltered_by (klog w1) @ pre \<and> (err = 0 \<longrightarrow> pre = []))"
        using ih by simp
      then have "i < j" by simp
      then have "[i..<j] = i # [i + 1..<j]" by (simp add: upt_conv_Cons)
      with ih' l e0 show ?thesis by auto
    qed
  qed
qed

lemma rollback_log:
  "installed_by (klog (rollback K hooks i w)) = installed_by (klog w)
   \<and> unregistered_by (klog (rollback K hooks i w))
        = unregistered_by (klog w) @ rev (map ((+) hooks) [0..<i])
   \<and> unfiltered_by (klog (rollback K hooks i w))
        = unfiltered_by (klog w) @ rev (map ((+) hooks) [0..<i])"
  by (induction i arbitrary: w) (simp_all add: fh_remove_hook_log)

lemma remove_loop_log:
  "i \<le> count \<Longrightarrow>
   installed_by (klog (remove_loop K hooks count i w)) = installed_by (klog w)
   \<and> unregistered_by (klog (remove_loop K hooks count i w))
        = unregistered_by (klog w) @ map ((+) hooks) [i..<count]
   \<and> unfiltered_by (klog (remove_loop K hooks count i w))
        = unfiltered_by (klog w) @ map ((+) hooks) [i..<count]
   \<and> debug_lines (klog (remove_loop K hooks count i w)) + failed_removals (klog w)
       = debug_lines (klog w) + failed_removals (klog (remove_loop K hooks count i w))"
proof (induction K hooks count i w rule: remove_loop.induct)
  case (1 K hooks count i w)
  show ?case
  proof (cases "i < count")
    case False
    with "1.prems" show ?thesis by (simp add: remove_loop.simps [of K hooks count i w])
  next
    case True
    then have "i + 1 \<le> count" by simp
    note ih = "1.IH" [OF True this]
    from True have u: "[i..<count] = i # [i + 1..<count]" by (simp add: upt_conv_Cons)
    from True have s: "remove_loop K hooks count i w
        = remove_loop K hooks count (i + 1) (fh_remove_hook K (hooks + i) w)"
      by (simp add: remove_loop.simps [of K hooks count i w])
    show ?thesis
      using ih fh_remove_hook_log [of K "hooks + i" w] unfolding s u by auto
  qed
qed

subsection \<open>Resolution that fails and installation that succeeds\<close>

text \<open>
  C5. The claim: \<open>fh_install_hook\<close> returns a nonzero error whenever the address of the
  target symbol cannot be resolved, also when the kprobe registration used for the
  resolution fails, and \<open>fh_init\<close> passes the error on. \<open>fh_init\<close> does pass on what
  \<open>fh_install_hooks\<close> returns, but the resolution misses both cases. First: the symbol
  handed to \<^verbatim>\<open>register_kprobe\<close> is always \<^verbatim>\<open>kallsyms_lookup_name\<close>, never \<^verbatim>\<open>hook->name\<close>; under a
  kernel that has no symbol of the hook's name, \<open>fh_init\<close> returns 0, logs the load and leaves the
  hook registered on the address of \<^verbatim>\<open>kallsyms_lookup_name\<close>. Second: when \<^verbatim>\<open>register_kprobe\<close>
  fails, \<^verbatim>\<open>fh_resolve_hook_address\<close> returns 0; a descriptor whose address field already
  holds a traceable address is then installed on it and \<open>fh_install_hook\<close> returns 0.
\<close>

theorem fh_install_hook_unresolved_returns_zero:
  "map_of [(''kallsyms_lookup_name'', 0xFFFF0000 :: u64)] (name demo_hook) = None \<and>
   (case fh_init sample_kernel
           (world_of demo_hook (ksim0\<lparr>symtab := [(''kallsyms_lookup_name'', 0xFFFF0000)]\<rparr>)) of
      (err, w) \<Rightarrow> (err, registered (kstate w), address (hookmem w demo_hooks), klog w))
    = (0, [0], 0xFFFF0000,
       [Ev_register_kprobe ''kallsyms_lookup_name'' 0,
        Ev_unregister_kprobe ''kallsyms_lookup_name'',
        Ev_ftrace_set_filter_ip 0 0xFFFF0000 0 0 0,
        Ev_register_ftrace_function 0 0, Ev_pr_info ''module loaded'']) \<and>
   (case fh_install_hook sample_kernel 0
           (world_of (demo_hook\<lparr>address := 0xFFFF1000\<rparr>)
              (ksim0\<lparr>symtab := [(''do_error_trap'', 0xFFFF1000)]\<rparr>)) of
      (err, w) \<Rightarrow> (err, registered (kstate w), klog w))
    = (0, [0],
       [Ev_register_kprobe ''kallsyms_lookup_name'' (- 2),
        Ev_ftrace_set_filter_ip 0 0xFFFF1000 0 0 0,
        Ev_register_ftrace_function 0 0])"
  by code_simp

subsection \<open>All or nothing\<close>

text \<open>
  What the record says is installed, through one hook, the installation loop and the
  loop at \<^verbatim>\<open>error\<close>. The count of failed removal calls never goes down, so a call that
  leaves it as it was has seen every one of its removal calls succeed.
\<close>

lemma registered_after_append [simp]:
  "registered_after acc (a @ b) = registered_after (registered_after acc a) b"
  by (induction acc a rule: registered_after.induct) auto

lemma filtered_after_append [simp]:
  "filtered_after acc (a @ b) = filtered_after (filtered_after acc a) b"
  by (induction acc a rule: filtered_after.induct) auto

lemma fh_resolve_hook_address_state:
  assumes "fh_resolve_hook_address K p w = (err, w')"
  shows "registered_after ra (klog w') = registered_after ra (klog w)
     \<and> filtered_after fa (klog w') = filtered_after fa (klog w)
     \<and> failed_removals (klog w') = failed_removals (klog w)"
  using assms
  by (auto simp: fh_resolve_hook_address_def Let_def split: prod.splits if_splits)

lemma fh_install_hook_state:
  assumes "fh_install_hook K p w = (err, w')"
  shows "failed_removals (klog w) \<le> failed_removals (klog w')
     \<and> (err = 0 \<longrightarrow> failed_removals (klog w') = failed_removals (klog w))
     \<and> registered_after ra (klog w')
          = (if err = 0 then p # registered_after ra (klog w) else registered_after ra (klog w))
     \<and> (failed_removals (klog w') = failed_removals (klog w) \<longrightarrow>
          filtered_after fa (klog w')
            = (if err = 0 then p # filtered_after fa (klog w) else filtered_after fa (klog w)))"
proof -
  obtain e1 w1 where r: "fh_resolve_hook_address K p w = (e1, w1)"
    by (cases "fh_resolve_hook_address K p w") auto
  note l = fh_resolve_hook_address_state [OF r, of ra fa]
  show ?thesis
    using assms r l
    by (auto simp: fh_install_hook_def Let_def split: prod.splits if_splits)
qed

lemma fh_remove_hook_state:
  "failed_removals (klog w) \<le> failed_removals (klog (fh_remove_hook K p w))
   \<and> (failed_removals (klog (fh_remove_hook K p w)) = failed_removals (klog w) \<longrightarrow>
        registered_after ra (klog (fh_remove_hook K p w)) = remove1 p (registered_after ra (klog w))
      \<and> filtered_after fa (klog (fh_remove_hook K p w)) = remove1 p (filtered_after fa (klog w)))"
  by (auto simp: fh_remove_hook_def Let_def split: prod.splits)

lemma install_loop_state:
  "install_loop K hooks count i w = (err, j, w') \<Longrightarrow>
     failed_removals (klog w) \<le> failed_removals (klog w') \<and>
     (err = 0 \<longrightarrow> failed_removals (klog w') = failed_removals (klog w)) \<and>
     registered_after ra (klog w')
       = rev (map ((+) hooks) [i..<j]) @ registered_after ra (klog w) \<and>
     (failed_removals (klog w') = failed_removals (klog w) \<longrightarrow>
        filtered_after fa (klog w') = rev (map ((+) hooks) [i..<j]) @ filtered_after fa (klog w))"
proof (induction K hooks count i w rule: install_loop.induct)
  case (1 K hooks count i w)
  show ?case
  proof (cases "i < count")
    case False
    with "1.prems" show ?thesis by (simp add: install_loop.simps [of K hooks count i w])
  next
    case True
    obtain e1 w1 where h: "fh_install_hook K (hooks + i) w = (e1, w1)"
      by (cases "fh_install_hook K (hooks + i) w") auto
    note l = fh_install_hook_state [OF h, of ra fa]
    show ?thesis
    proof (cases "e1 = 0")
      case False
      with True h "1.prems" have "err = e1" "j = i" "w' = w1"
        by (simp_all add: install_loop.simps [of K hooks count i w])
      with False l show ?thesis by auto
    next
      case e0: True
      with True h "1.prems" have rec: "install_loop K hooks count (i + 1) w1 = (err, j, w')"
        by (simp add: install_loop.simps [of K hooks count i w])
      note ih = "1.IH" [OF True h [symmetric] refl _ rec]
      from e0 have ih':
        "failed_removals (klog w1) \<le> failed_removals (klog w') \<and>
         (err = 0 \<longrightarrow> failed_removals (klog w') = failed_removals (klog w1)) \<and>
         registered_after ra (klog w')
           = rev (map ((+) hooks) [i + 1..<j]) @ registered_after ra (klog w1) \<and>
         (failed_removals (klog w') = failed_removals (klog w1) \<longrightarrow>
            filtered_after fa (klog w')
              = rev (map ((+) hooks) [i + 1..<j]) @ filtered_after fa (klog w1))"
        using ih by simp
      have "i + 1 \<le> j" using install_loop_log [OF rec] True by simp
      then have "i < j" by simp
      then have "[i..<j] = i # [i + 1..<j]" by (simp add: upt_conv_Cons)
      with ih' l e0 show ?thesis by auto
    qed
  qed
qed

lemma rollback_state:
  "failed_removals (klog w) \<le> failed_removals (klog (rollback K hooks i w)) \<and>
   (failed_removals (klog (rollback K hooks i w)) = failed_removals (klog w) \<longrightarrow>
      registered_after ra (klog w) = rev (map ((+) hooks) [0..<i]) @ r0 \<longrightarrow>
      filtered_after fa (klog w) = rev (map ((+) hooks) [0..<i]) @ f0 \<longrightarrow>
      registered_after ra (klog (rollback K hooks i w)) = r0 \<and>
      filtered_after fa (klog (rollback K hooks i w)) = f0)"
proof (induction i arbitrary: w)
  case 0
  show ?case by simp
next
  case (Suc i)
  let ?w1 = "fh_remove_hook K (hooks + i) w"
  note s = fh_remove_hook_state [of w K "hooks + i" ra fa]
  note ih = Suc.IH [of ?w1]
  show ?case using s ih by auto
qed

text \<open>
  C6, as the claim states it, fails: \<open>fh_remove_hook\<close> only logs the error of a removal
  call. Three hooks under a kernel that refuses to register the third and to unregister
  the first: the call returns -16, hooks 0 and 1 were installed, \<open>fh_remove_hook\<close> was
  applied to 1 and to 0, and hook 0 is still registered when the error is returned.
\<close>

theorem fh_install_hooks_removal_refused:
  "fst (fh_install_hooks sample_kernel 0 3
          (world_of demo_hook (ksim0\<lparr>refuse_register := [2], refuse_unregister := [0]\<rparr>)))
     = - 16 \<and>
   (\<lambda>w. (installed_by (klog w), unregistered_by (klog w), registered_after [] (klog w),
          registered (kstate w)))
      (snd (fh_install_hooks sample_kernel 0 3
          (world_of demo_hook (ksim0\<lparr>refuse_register := [2], refuse_unregister := [0]\<rparr>))))
     = ([0, 1], [1, 0], [0], [0])"
  by code_simp

text \<open>
  C6, amended. For every array of hooks and every count: if \<open>fh_install_hooks\<close> returns a
  nonzero error, the hooks installed during the call are \<^verbatim>\<open>hooks[0]\<close>, ..., \<^verbatim>\<open>hooks[i-1]\<close> for
  some \<open>i\<close> below the count, and before the error is returned \<open>fh_remove_hook\<close> has been
  applied to each of them, in reverse order of installation; if every removal call of
  the kernel made during the call succeeded, the registered hooks and the filters are
  what they were before the call, so no partially installed state remains. If it
  returns 0, all \<open>count\<close> hooks are installed (registered, with their filters) and nothing
  was removed.
\<close>

theorem fh_install_hooks_rollback:
  assumes "fh_install_hooks K hooks count w = (err, w')"
  shows "(\<exists>ins. installed_by (klog w') = installed_by (klog w) @ ins \<and>
     (if err = 0 then
        ins = map ((+) hooks) [0..<count] \<and>
        unregistered_by (klog w') = unregistered_by (klog w) \<and>
        unfiltered_by (klog w') = unfiltered_by (klog w)
      else
        (\<exists>i<count. ins = map ((+) hooks) [0..<i]) \<and>
        unregistered_by (klog w') = unregistered_by (klog w) @ rev ins \<and>
        (\<exists>pre. unfiltered_by (klog w') = unfiltered_by (klog w) @ pre @ rev ins))) \<and>
   (err = 0 \<longrightarrow>
      registered_after ra (klog w')
        = rev (map ((+) hooks) [0..<count]) @ registered_after ra (klog w) \<and>
      filtered_after fa (klog w')
        = rev (map ((+) hooks) [0..<count]) @ filtered_after fa (klog w)) \<and>
   (err \<noteq> 0 \<and> failed_removals (klog w') = failed_removals (klog w) \<longrightarrow>
      registered_after ra (klog w') = registered_after ra (klog w) \<and>
      filtered_after fa (klog w') = filtered_after fa (klog w))"
proof -
  obtain e j w1 where l: "install_loop K hooks count 0 w = (e, j, w1)"
    by (cases "install_loop K hooks count 0 w") auto
  note il = install_loop_log [OF l]
  note st = install_loop_state [OF l, of ra fa]
  show ?thesis
  proof (cases "e = 0")
    case True
    with l assms have "err = 0" "w' = w1" by (simp_all add: fh_install_hooks_def)
    with True il st show ?thesis by auto
  next
    case False
    with l assms have ew: "err = e" "w' = rollback K hooks j w1"
      by (simp_all add: fh_install_hooks_def)
    note rs = rollback_state [of w1 K hooks j ra "registered_after ra (klog w)" fa
        "filtered_after fa (klog w)"]
    have calls: "\<exists>ins. installed_by (klog w') = installed_by (klog w) @ ins \<and>
       (\<exists>i<count. ins = map ((+) hooks) [0..<i]) \<and>
        unregistered_by (klog w') = unregistered_by (klog w) @ rev ins \<and>
        (\<exists>pre. unfiltered_by (klog w') = unfiltered_by (klog w) @ pre @ rev ins)"
      using False ew il rollback_log [of K hooks j w1] by auto
    have state: "failed_removals (klog w') = failed_removals (klog w) \<longrightarrow>
      registered_after ra (klog w') = registered_after ra (klog w) \<and>
      filtered_after fa (klog w') = filtered_after fa (klog w)"
      using ew st rs by auto
    from calls state False ew show ?thesis by simp
  qed
qed

text \<open>
  Three hooks under a kernel that refuses to register the third and refuses no
  removal: the call returns -16, hooks 0 and 1 were installed and then unregistered as
  1, 0, no removal call failed, and neither the record nor the kernel holds a
  registered hook or a filter afterwards.
\<close>

theorem fh_install_hooks_rollback_witness:
  "fst (fh_install_hooks sample_kernel 0 3
          (world_of demo_hook (ksim0\<lparr>refuse_register := [2]\<rparr>))) = - 16 \<and>
   (\<lambda>w. (installed_by (klog w), unregistered_by (klog w), unfiltered_by (klog w),
          failed_removals (klog w), registered (kstate w), filtered (kstate w)))
      (snd (fh_install_hooks sample_kernel 0 3
              (world_of demo_hook (ksim0\<lparr>refuse_register := [2]\<rparr>))))
    = ([0, 1], [1, 0], [2, 1, 0], 0, [], []) \<and>
   registered_after [] (klog (snd (fh_install_hooks sample_kernel 0 3
              (world_of demo_hook (ksim0\<lparr>refuse_register := [2]\<rparr>))))) = [] \<and>
   filtered_after [] (klog (snd (fh_install_hooks sample_kernel 0 3
              (world_of demo_hook (ksim0\<lparr>refuse_register := [2]\<rparr>))))) = []"
proof -
  define X where "X = fh_install_hooks sample_kernel 0 3
              (world_of demo_hook (ksim0\<lparr>refuse_register := [2]\<rparr>))"
  have e: "fst (fh_install_hooks sample_kernel 0 3
          (world_of demo_hook (ksim0\<lparr>refuse_register := [2]\<rparr>))) = - 16"
    by code_simp
  have g: "(\<lambda>w. (installed_by (klog w), unregistered_by (klog w), unfiltered_by (klog w),
          failed_removals (klog w), registered (kstate w), filtered (kstate w)))
      (snd (fh_install_hooks sample_kernel 0 3
              (world_of demo_hook (ksim0\<lparr>refuse_register := [2]\<rparr>))))
    = ([0, 1], [1, 0], [2, 1, 0], 0, [], [])"
    by code_simp
  have k: "klog (world_of demo_hook (ksim0\<lparr>refuse_register := [2]\<rparr>)) = []"
    by (simp add: world_of_def)
  have f: "fst X \<noteq> 0" using e unfolding X_def by simp
  have n: "failed_removals (klog (snd X)) = 0" using g unfolding X_def by simp
  have c: "fh_install_hooks sample_kernel 0 3
              (world_of demo_hook (ksim0\<lparr>refuse_register := [2]\<rparr>)) = (fst X, snd X)"
    unfolding X_def by simp
  have "registered_after [] (klog (snd X)) = [] \<and> filtered_after [] (klog (snd X)) = []"
    using fh_install_hooks_rollback [OF c, of "[]" "[]"] f n unfolding k by simp
  then show ?thesis using e g unfolding X_def by blast
qed

subsection \<open>Removal is best effort\<close>

text \<open>
  C7. Hook removal propagates no error. \<open>fh_remove_hook\<close>, \<open>fh_remove_hooks\<close> and \<open>fh_exit\<close>
  return no error value (their result is the world alone). Whatever
  \<^verbatim>\<open>unregister_ftrace_function\<close> and \<^verbatim>\<open>ftrace_set_filter_ip\<close> return, \<open>fh_remove_hooks\<close> calls both
  on every hook of the list, in order, and writes exactly one \<^verbatim>\<open>pr_debug\<close> line per call
  that failed; \<open>fh_exit\<close> does so for \<^verbatim>\<open>demo_hooks\<close> and ends with the line of the completed
  unload.
\<close>

theorem fh_remove_hooks_best_effort:
  "unregistered_by (klog (fh_remove_hooks K hooks count w))
      = unregistered_by (klog w) @ map ((+) hooks) [0..<count] \<and>
   unfiltered_by (klog (fh_remove_hooks K hooks count w))
      = unfiltered_by (klog w) @ map ((+) hooks) [0..<count] \<and>
   debug_lines (klog (fh_remove_hooks K hooks count w)) + failed_removals (klog w)
      = debug_lines (klog w) + failed_removals (klog (fh_remove_hooks K hooks count w)) \<and>
   unregistered_by (klog (fh_exit K w)) = unregistered_by (klog w) @ [demo_hooks] \<and>
   unfiltered_by (klog (fh_exit K w)) = unfiltered_by (klog w) @ [demo_hooks] \<and>
   last (klog (fh_exit K w)) = Ev_pr_info ''module unloaded''"
  using remove_loop_log [of 0 count K hooks w]
    remove_loop_log [of 0 demo_hooks_size K demo_hooks w]
  by (simp add: fh_remove_hooks_def fh_exit_def demo_hooks_size_def)

text \<open>
  Unloading under a kernel in which nothing is registered: both removal calls fail with
  -22, each failure is logged, and the unload completes. Removing three hooks of which
  the first cannot be unregistered still reaches the other two.
\<close>

theorem fh_remove_hooks_best_effort_witness:
  "klog (fh_exit sample_kernel (world_of demo_hook ksim0))
     = [Ev_unregister_ftrace_function 0 (- 22),
        Ev_pr_debug ''unregister_ftrace_function() failed: %d'',
        Ev_ftrace_set_filter_ip 0 0 1 0 (- 22),
        Ev_pr_debug ''ftrace_set_filter_ip() failed: %d'',
        Ev_pr_info ''module unloaded''] \<and>
   unregistered_by (klog (fh_remove_hooks sample_kernel 0 3
       (world_of demo_hook (ksim0\<lparr>refuse_unregister := [0], registered := [2, 1, 0]\<rparr>))))
     = [0, 1, 2] \<and>
   registered (kstate (fh_remove_hooks sample_kernel 0 3
       (world_of demo_hook (ksim0\<lparr>refuse_unregister := [0], registered := [2, 1, 0]\<rparr>))))
     = [0]"
proof -
  define W where "W = world_of demo_hook (ksim0\<lparr>refuse_unregister := [0], registered := [2, 1, 0]\<rparr>)"
  have a: "klog (fh_exit sample_kernel (world_of demo_hook ksim0))
     = [Ev_unregister_ftrace_function 0 (- 22),
        Ev_pr_debug ''unregister_ftrace_function() failed: %d'',
        Ev_ftrace_set_filter_ip 0 0 1 0 (- 22),
        Ev_pr_debug ''ftrace_set_filter_ip() failed: %d'',
        Ev_pr_info ''module unloaded'']"
    by code_simp
  have b: "registered (kstate (fh_remove_hooks sample_kernel 0 3
       (world_of demo_hook (ksim0\<lparr>refuse_unregister := [0], registered := [2, 1, 0]\<rparr>))))
     = [0]"
    by code_simp
  have u: "map ((+) 0) [0..<3] = [0, 1, 2]" by (simp add: upt_rec)
  have k: "klog W = []" by (simp add: W_def world_of_def)
  have c: "unregistered_by (klog (fh_remove_hooks sample_kernel 0 3 W)) = [0, 1, 2]"
    using fh_remove_hooks_best_effort [of sample_kernel 0 3 W] unfolding k u by simp
  from a b c show ?thesis unfolding W_def by blast
qed

end
